theory Spec2Isabelle
  imports Complex_Main
begin

section \<open>Values\<close>

text \<open>
  A Python \<open>str\<close> is a sequence of code points (the OCR output is Japanese text, and
  slicing and \<open>len\<close> count code points), so it is a list of naturals. \<open>py_str\<close>
  embeds an ASCII literal of the source.
\<close>

type_synonym ustr = "nat list"

definition py_str :: "string \<Rightarrow> ustr" where
  "py_str s = map of_char s"

text \<open>An exception carries its message, which is what \<open>str(e)\<close> reads.\<close>

datatype exn = Exception ustr

fun str_of :: "exn \<Rightarrow> ustr" where
  "str_of (Exception m) = m"

text \<open>Truthiness of an \<open>Optional[str]\<close>: \<open>None\<close> and the empty string are false.\<close>

fun truthy :: "ustr option \<Rightarrow> bool" where
  "truthy None = False"
| "truthy (Some s) = (s \<noteq> [])"

text \<open>\<open>f"{n}"\<close> for a non-negative integer: its decimal digits.\<close>

fun str_nat :: "nat \<Rightarrow> ustr" where
  "str_nat n = (if n < 10 then [48 + n] else str_nat (n div 10) @ [48 + n mod 10])"

declare str_nat.simps [simp del]

text \<open>
  Coordinates are the finite values of numpy's arrays. Every finite float is a rational,
  and the code only compares coordinates (\<open>np.min\<close>, \<open>np.max\<close>) and truncates them
  (\<open>int(x)\<close>, and \<open>astype(np.int32)\<close> within the 32-bit range): both are exact, so
  rationals model them exactly. \<open>int(x)\<close> truncates towards zero, to an unbounded integer.
\<close>

definition py_int :: "rat \<Rightarrow> int" where
  "py_int x = (if 0 \<le> x then \<lfloor>x\<rfloor> else \<lceil>x\<rceil>)"

type_synonym point = "rat \<times> rat"
type_synonym polygon = "point list"
type_synonym box = "rat \<times> rat \<times> rat \<times> rat"

text \<open>
  The detector's \<open>TextBlock\<close> class is not part of the service's source; the service reads
  four attributes of it: the block-level box \<open>xyxy\<close>, the per-line polygons \<open>lines\<close>, the
  orientation \<open>vertical\<close> and the estimated \<open>font_size\<close> (which may be \<open>None\<close>).
\<close>

record text_block =
  xyxy :: box
  lines :: "polygon list"
  vertical :: bool
  font_size :: "rat option"

text \<open>
  Modelled from the spec: \<open>TextBlock.lines_array()\<close> is a method of the detector's class,
  which is not under the service's source. The glossary gives a text block its
  "per-line sub-polygons"; \<open>lines_array\<close> is the array of these polygons.
\<close>

definition lines_array :: "text_block \<Rightarrow> polygon list" where
  "lines_array blk = lines blk"

subsection \<open>Pictures\<close>

text \<open>
  A picture buffer (a numpy array or a PIL image): its shape, the channel order, the
  decoded pixel data (opaque), and the overlays drawn onto it since, oldest first.
\<close>

datatype channel_order = BGR | RGB

type_synonym colour = "nat list"

datatype font = FreeTypeFont ustr nat | DefaultFont

datatype draw_op =
    Rectangle "int \<times> int \<times> int \<times> int" "colour option" "colour option" nat
  | DrawText "int \<times> int" ustr colour font
  | Polylines "(int \<times> int) list list" bool colour nat

record picture =
  rows :: nat
  cols :: nat
  channels :: channel_order
  pixels :: "nat list"
  drawn :: "draw_op list"

text \<open>
  The entries of \<open>debug_info\<close>. Each constructor stands for one f-string of the source and
  carries the values interpolated into it.
\<close>

datatype debug_entry =
    FoundTextBlocks nat
  | FailedToExtractLine nat nat ustr
  | BlockSummary nat "int list" bool "rat option" nat ustr
  | FinalResults nat
  | DebugImageSaved ustr
  | FailedToSaveDebugImage ustr
  | FailedToGenerateDebugImage ustr

text \<open>
  One entry of \<open>"textBlocks"\<close>; the field \<open>res_k\<close> is the dictionary key \<open>"k"\<close>.
\<close>

record result_blk =
  res_bbox :: "int list"
  res_width :: int
  res_height :: int
  res_vertical :: bool
  res_font_size :: "rat option"
  res_lines :: nat
  res_confidence :: rat
  res_text :: ustr
  res_text_lines :: "ustr list"

record image_size =
  size_width :: nat
  size_height :: nat

text \<open>
  The response of \<open>run_ocr_detection\<close>. The key \<open>"debugImagePath"\<close> is optional: \<open>None\<close>
  means the key is absent.
\<close>

record response =
  success :: bool
  textBlocks :: "result_blk list"
  imageSize :: image_size
  debug :: "debug_entry list"
  debugImagePath :: "ustr option"

section \<open>The environment: configuration and third-party libraries\<close>

type_synonym detector = "picture \<Rightarrow> nat \<Rightarrow> bool \<Rightarrow> exn + (picture \<times> picture \<times> text_block list)"
type_synonym ocr = "picture \<Rightarrow> exn + ustr"

text \<open>
  Library calls whose effect the model writes out (copying, channel swapping, drawing).
  Whether such a call raises is the environment's choice, through \<open>raises\<close>.
\<close>

datatype libcall =
    Copy picture
  | CvtColor picture
  | Fromarray picture
  | AsArray picture
  | ImageDraw picture
  | Truetype ustr nat
  | LoadDefault
  | Drawing draw_op

record env =
  GENERATE_DEBUG_IMAGES :: bool
  comic_detector_path :: ustr
  import_error :: "exn option"
  path_exists :: "ustr \<Rightarrow> bool"
  cuda_is_available :: bool
  TextDetector :: "ustr \<Rightarrow> nat \<Rightarrow> ustr \<Rightarrow> ustr \<Rightarrow> exn + detector"
  MangaOcr :: "exn + ocr"
  save_upload :: "nat list \<Rightarrow> exn + ustr"
  imread :: "ustr \<Rightarrow> picture option"
  get_transformed_region :: "text_block \<Rightarrow> picture \<Rightarrow> nat \<Rightarrow> rat \<Rightarrow> exn + picture"
  rotate_90_clockwise :: "picture \<Rightarrow> exn + picture"
  raises :: "libcall \<Rightarrow> exn option"
  textbbox :: "int \<times> int \<Rightarrow> ustr \<Rightarrow> font \<Rightarrow> exn + (int \<times> int \<times> int \<times> int)"
  imwrite :: "ustr \<Rightarrow> picture \<Rightarrow> exn + bool"
  debug_path_exists :: "ustr \<Rightarrow> bool"
  path_parent :: "ustr \<Rightarrow> ustr"
  path_stem :: "ustr \<Rightarrow> ustr"
  path_suffix :: "ustr \<Rightarrow> ustr"
  path_join :: "ustr \<Rightarrow> ustr \<Rightarrow> ustr"
  format_exc :: "exn \<Rightarrow> ustr"
  int32_overflow :: "rat \<Rightarrow> int"

definition lib :: "env \<Rightarrow> libcall \<Rightarrow> 'a \<Rightarrow> exn + 'a" where
  "lib env c r = (case raises env c of Some e \<Rightarrow> Inl e | None \<Rightarrow> Inr r)"

section \<open>Model initialisation\<close>

text \<open>The two global model slots, \<open>None\<close> until loaded.\<close>

record models =
  text_detector :: "detector option"
  manga_ocr :: "ocr option"

definition model_path :: "env \<Rightarrow> ustr" where
  "model_path env = comic_detector_path env @ py_str ''/data/comictextdetector.pt.onnx''"

text \<open>
  \<open>initialize_models\<close>: the exception, if any, and the slots afterwards. The detector is
  assigned before the OCR model is constructed, so it stays assigned when \<open>MangaOcr()\<close>
  raises.
\<close>

definition initialize_models :: "env \<Rightarrow> models \<Rightarrow> (exn + unit) \<times> models" where
  "initialize_models env g =
     (if text_detector g = None \<or> manga_ocr g = None then
        (case import_error env of
           Some e \<Rightarrow> (Inl e, g)
         | None \<Rightarrow>
             if \<not> path_exists env (model_path env)
             then (Inl (Exception (py_str ''Model file not found: '' @ model_path env)), g)
             else
               let device = (if cuda_is_available env then py_str ''cuda'' else py_str ''cpu'') in
               (case TextDetector env (model_path env) 1024 device (py_str ''leaky'') of
                  Inl e \<Rightarrow> (Inl e, g)
                | Inr td \<Rightarrow>
                    let g1 = g\<lparr>text_detector := Some td\<rparr> in
                    (case MangaOcr env of
                       Inl e \<Rightarrow> (Inl e, g1)
                     | Inr m \<Rightarrow> (Inr (), g1\<lparr>manga_ocr := Some m\<rparr>))))
      else (Inr (), g))"

section \<open>Tight bounding box\<close>

text \<open>\<open>np.min\<close> and \<open>np.max\<close> of a non-empty column (the code calls them on nothing else).\<close>

fun np_min :: "rat list \<Rightarrow> rat" where
  "np_min (x # xs) = fold min xs x"

fun np_max :: "rat list \<Rightarrow> rat" where
  "np_max (x # xs) = fold max xs x"

definition calculate_tight_bbox_from_lines :: "text_block \<Rightarrow> box" where
  "calculate_tight_bbox_from_lines blk =
     (let lns = lines_array blk in
      if length lns = 0 then xyxy blk
      else
        let all_points = fold (\<lambda>line acc. acc @ line) lns [] in
        if length all_points = 0 then xyxy blk
        else
          (np_min (map fst all_points), np_min (map snd all_points),
           np_max (map fst all_points), np_max (map snd all_points)))"

text \<open>\<open>x1, y1, x2, y2 = int(x1), int(y1), int(x2), int(y2)\<close>\<close>

fun int_box :: "box \<Rightarrow> int \<times> int \<times> int \<times> int" where
  "int_box (x1, y1, x2, y2) = (py_int x1, py_int y1, py_int x2, py_int y2)"

section \<open>Per-line OCR\<close>

text \<open>\<open>blk.font_size or 20\<close>: \<open>None\<close> and \<open>0\<close> are false.\<close>

definition font_size_or_20 :: "text_block \<Rightarrow> rat" where
  "font_size_or_20 blk =
     (case font_size blk of None \<Rightarrow> 20 | Some f \<Rightarrow> if f = 0 then 20 else f)"

text \<open>
  \<open>cv2.cvtColor\<close> with \<open>COLOR_BGR2RGB\<close> or \<open>COLOR_RGB2BGR\<close> returns a new array with the
  first and third channel exchanged; \<open>Image.fromarray\<close> returns an image of the same data.
\<close>

definition swap_rb :: "picture \<Rightarrow> picture" where
  "swap_rb p = p\<lparr>channels := (case channels p of BGR \<Rightarrow> RGB | RGB \<Rightarrow> BGR)\<rparr>"

definition cvtColor :: "env \<Rightarrow> picture \<Rightarrow> exn + picture" where
  "cvtColor env p = lib env (CvtColor p) (swap_rb p)"

definition fromarray :: "env \<Rightarrow> picture \<Rightarrow> exn + picture" where
  "fromarray env p = lib env (Fromarray p) p"

text \<open>
  The image handed to the OCR model for one line (the \<open>try\<close> body up to \<open>line_pil\<close>):
  the crop of the line, rotated when the block is vertical, converted to a PIL image.
\<close>

definition line_pil :: "env \<Rightarrow> picture \<Rightarrow> text_block \<Rightarrow> nat \<Rightarrow> exn + picture" where
  "line_pil env img blk line_idx =
     (case get_transformed_region env blk img line_idx (font_size_or_20 blk) of
        Inl e \<Rightarrow> Inl e
      | Inr line_crop \<Rightarrow>
          (case (if vertical blk then rotate_90_clockwise env line_crop else Inr line_crop) of
             Inl e \<Rightarrow> Inl e
           | Inr line_crop' \<Rightarrow>
               (case cvtColor env line_crop' of
                  Inl e \<Rightarrow> Inl e
                | Inr rgb \<Rightarrow> fromarray env rgb)))"

definition extract_line :: "env \<Rightarrow> ocr \<Rightarrow> picture \<Rightarrow> text_block \<Rightarrow> nat \<Rightarrow> exn + ustr" where
  "extract_line env m img blk line_idx =
     (case line_pil env img blk line_idx of
        Inl e \<Rightarrow> Inl e
      | Inr pil \<Rightarrow> m pil)"

text \<open>
  One iteration of the loop over \<open>range(len(blk.lines))\<close>, on the pair
  \<open>(extracted_lines, debug_info)\<close>: the \<open>except\<close> branch notes the failure and appends
  the empty string.
\<close>

definition line_step ::
  "env \<Rightarrow> ocr \<Rightarrow> picture \<Rightarrow> nat \<Rightarrow> text_block \<Rightarrow> nat \<Rightarrow>
   ustr list \<times> debug_entry list \<Rightarrow> ustr list \<times> debug_entry list" where
  "line_step env m img blk_idx blk line_idx acc =
     (case acc of (extracted_lines, debug_info) \<Rightarrow>
        (case extract_line env m img blk line_idx of
           Inr line_text \<Rightarrow> (extracted_lines @ [line_text], debug_info)
         | Inl line_e \<Rightarrow>
             (extracted_lines @ [[]],
              debug_info @ [FailedToExtractLine line_idx (blk_idx + 1) (str_of line_e)])))"

text \<open>
  One iteration of the loop over \<open>enumerate(blk_list)\<close>, on the pair
  \<open>(results, debug_info)\<close>.
\<close>

definition process_block ::
  "env \<Rightarrow> ocr \<Rightarrow> picture \<Rightarrow> nat \<times> text_block \<Rightarrow>
   result_blk list \<times> debug_entry list \<Rightarrow> result_blk list \<times> debug_entry list" where
  "process_block env m img ib acc =
     (case ib of (blk_idx, blk) \<Rightarrow>
      case acc of (results, debug_info) \<Rightarrow>
      case int_box (calculate_tight_bbox_from_lines blk) of (x1, y1, x2, y2) \<Rightarrow>
      case fold (line_step env m img blk_idx blk) [0..<length (lines blk)] ([], debug_info)
        of (extracted_lines, debug_info') \<Rightarrow>
      let full_text = concat extracted_lines;
          result_blk = \<lparr>
            res_bbox = [x1, y1, x2, y2],
            res_width = x2 - x1,
            res_height = y2 - y1,
            res_vertical = vertical blk,
            res_font_size = font_size blk,
            res_lines = length (lines blk),
            res_confidence = 1,
            res_text = full_text,
            res_text_lines = extracted_lines \<rparr>
      in (results @ [result_blk],
          debug_info' @ [BlockSummary (blk_idx + 1) [x1, y1, x2, y2] (vertical blk)
             (font_size blk) (length (lines blk))
             (take 50 full_text @ (if length full_text > 50 then py_str ''...'' else []))]))"

section \<open>Debug image\<close>

text \<open>
  Buffers are mutable and shared by reference, so the debug image is modelled over a
  store: \<open>heap\<close> holds the picture buffers (an address is an index), \<open>files\<close> the
  pictures written to disk, oldest first. A computation takes the world and returns
  its result or exception together with the world it leaves.
\<close>

record world =
  heap :: "picture list"
  files :: "(ustr \<times> picture) list"

type_synonym 'a io = "world \<Rightarrow> (exn + 'a) \<times> world"

definition return_io :: "'a \<Rightarrow> 'a io" where
  "return_io x w = (Inr x, w)"

definition bind_io :: "'a io \<Rightarrow> ('a \<Rightarrow> 'b io) \<Rightarrow> 'b io" where
  "bind_io c f w = (case c w of (Inl e, w') \<Rightarrow> (Inl e, w') | (Inr x, w') \<Rightarrow> f x w')"

text \<open>A library function that reads the buffer at \<open>a\<close> and returns a new buffer.\<close>

definition new_from :: "(picture \<Rightarrow> exn + picture) \<Rightarrow> nat \<Rightarrow> nat io" where
  "new_from f a w =
     (case f (heap w ! a) of
        Inl e \<Rightarrow> (Inl e, w)
      | Inr p \<Rightarrow> (Inr (length (heap w)), w\<lparr>heap := heap w @ [p]\<rparr>))"

text \<open>\<open>img.copy()\<close> and \<open>np.array(debug_pil)\<close>: new buffers of the same data.\<close>

definition ndarray_copy :: "env \<Rightarrow> picture \<Rightarrow> exn + picture" where
  "ndarray_copy env p = lib env (Copy p) p"

definition np_array :: "env \<Rightarrow> picture \<Rightarrow> exn + picture" where
  "np_array env p = lib env (AsArray p) p"

text \<open>\<open>ImageDraw.Draw(debug_pil)\<close>: a handle that draws into the buffer of \<open>debug_pil\<close>.\<close>

definition image_draw :: "env \<Rightarrow> nat \<Rightarrow> nat io" where
  "image_draw env a w = (lib env (ImageDraw (heap w ! a)) a, w)"

text \<open>
  A drawing call (\<open>draw.rectangle\<close>, \<open>draw.text\<close>, \<open>cv2.polylines\<close>) writes into the
  buffer at \<open>a\<close> in place.
\<close>

definition draw_on :: "env \<Rightarrow> nat \<Rightarrow> draw_op \<Rightarrow> unit io" where
  "draw_on env a op w =
     (case raises env (Drawing op) of
        Some e \<Rightarrow> (Inl e, w)
      | None \<Rightarrow>
          (Inr (), w\<lparr>heap := (heap w)[a := (heap w ! a)\<lparr>drawn := drawn (heap w ! a) @ [op]\<rparr>]\<rparr>))"

text \<open>Lines 390 to 395: copy the input, convert it, open it for drawing.\<close>

definition open_canvas :: "env \<Rightarrow> nat \<Rightarrow> nat io" where
  "open_canvas env img =
     bind_io (new_from (ndarray_copy env) img) (\<lambda>debug_img.
     bind_io (new_from (cvtColor env) debug_img) (\<lambda>rgb.
     bind_io (new_from (fromarray env) rgb) (\<lambda>debug_pil.
     image_draw env debug_pil)))"

subsection \<open>Font\<close>

definition font_paths :: "env \<Rightarrow> ustr list" where
  "font_paths env =
     [comic_detector_path env @ py_str ''/data/examples/fonts/msgothic.ttc'',
      py_str ''/usr/share/fonts/truetype/fonts-japanese-gothic.ttf'',
      py_str ''/usr/share/fonts/truetype/takao-gothic/TakaoGothic.ttf'',
      py_str ''/usr/share/fonts/opentype/noto/NotoSansCJK-Regular.ttc'',
      py_str ''/System/Library/Fonts/Arial Unicode MS.ttf'',
      py_str ''/Windows/Fonts/msyh.ttc'',
      py_str ''/usr/share/fonts/truetype/noto/NotoSans-Regular.ttf'',
      py_str ''/usr/share/fonts/truetype/liberation/LiberationSans-Regular.ttf'',
      py_str ''/usr/share/fonts/truetype/dejavu/DejaVuSans.ttf'',
      py_str ''/Windows/Fonts/arial.ttf'']"

text \<open>The loop over \<open>font_paths\<close>: the first existing path whose font loads.\<close>

fun first_font :: "env \<Rightarrow> ustr list \<Rightarrow> font option" where
  "first_font env [] = None"
| "first_font env (font_path # rest) =
     (if path_exists env font_path then
        (case lib env (Truetype font_path 24) (FreeTypeFont font_path 24) of
           Inr f \<Rightarrow> Some f
         | Inl font_e \<Rightarrow> first_font env rest)
      else first_font env rest)"

definition load_default :: "env \<Rightarrow> exn + font" where
  "load_default env = lib env LoadDefault DefaultFont"

text \<open>
  When no font loads, \<open>load_default\<close> is called; when that raises inside the \<open>try\<close>, the
  handler calls it again, and an exception there leaves the function's outer \<open>try\<close>.
\<close>

definition load_font :: "env \<Rightarrow> exn + font" where
  "load_font env =
     (case first_font env (font_paths env) of
        Some f \<Rightarrow> Inr f
      | None \<Rightarrow>
          (case load_default env of
             Inr f \<Rightarrow> Inr f
           | Inl e \<Rightarrow> load_default env))"

subsection \<open>Overlays\<close>

text \<open>
  \<open>line.astype(np.int32)\<close> casts each coordinate to a signed 32-bit integer: the
  coordinate truncated toward zero when that fits in 32 bits. What the cast leaves for a
  coordinate outside this range depends on the platform (field \<open>int32_overflow\<close> of the
  environment); the cast does not raise.
\<close>

definition to_int32 :: "env \<Rightarrow> rat \<Rightarrow> int" where
  "to_int32 env x =
     (if - (2 ^ 31) \<le> py_int x \<and> py_int x < 2 ^ 31 then py_int x else int32_overflow env x)"

definition astype_int32 :: "env \<Rightarrow> polygon \<Rightarrow> (int \<times> int) list" where
  "astype_int32 env line = map (\<lambda>(x, y). (to_int32 env x, to_int32 env y)) line"

text \<open>
  The loop over \<open>blk.lines_array()\<close>: each line is drawn with \<open>cv2.polylines\<close> on a
  converted copy, which becomes the new \<open>debug_pil\<close> (and \<open>draw\<close>).
\<close>

fun draw_lines :: "env \<Rightarrow> polygon list \<Rightarrow> nat \<Rightarrow> nat io" where
  "draw_lines env [] debug_pil = return_io debug_pil"
| "draw_lines env (line # rest) debug_pil =
     bind_io (new_from (np_array env) debug_pil) (\<lambda>arr.
     bind_io (new_from (cvtColor env) arr) (\<lambda>debug_cv2.
     bind_io (draw_on env debug_cv2 (Polylines [astype_int32 env line] True [255, 165, 0] 2)) (\<lambda>_.
     bind_io (new_from (cvtColor env) debug_cv2) (\<lambda>rgb.
     bind_io (new_from (fromarray env) rgb) (\<lambda>debug_pil'.
     bind_io (image_draw env debug_pil') (\<lambda>draw.
     draw_lines env rest draw))))))"

text \<open>The recognised text of a block, when it is not empty.\<close>

definition display_text :: "ustr \<Rightarrow> ustr" where
  "display_text extracted_text =
     (if length extracted_text > 30 then take 30 extracted_text @ py_str ''...''
      else extracted_text)"

definition draw_extracted_text ::
  "env \<Rightarrow> font \<Rightarrow> int \<times> int \<times> int \<times> int \<Rightarrow> ustr \<Rightarrow> nat \<Rightarrow> unit io" where
  "draw_extracted_text env fnt b extracted_text debug_pil =
     (case b of (x1, y1, x2, y2) \<Rightarrow>
      if extracted_text \<noteq> [] then
        let text_y = (if y1 > 50 then y1 - 50 else y2 + 10) in
        bind_io (\<lambda>w. (textbbox env (x1, text_y) (display_text extracted_text) fnt, w))
          (\<lambda>(b0, b1, b2, b3).
        bind_io (draw_on env debug_pil
                   (Rectangle (b0 - 2, b1 - 2, b2 + 2, b3 + 2) None (Some [255, 255, 255, 200]) 1))
          (\<lambda>_.
        draw_on env debug_pil (DrawText (x1, text_y) (display_text extracted_text) [255, 0, 0] fnt)))
      else return_io ())"

text \<open>The body of the loop over \<open>enumerate(zip(blk_list, text_results))\<close>.\<close>

definition draw_block ::
  "env \<Rightarrow> font \<Rightarrow> nat \<Rightarrow> text_block \<Rightarrow> result_blk \<Rightarrow> nat \<Rightarrow> nat io" where
  "draw_block env fnt i blk text_result debug_pil =
     (case int_box (calculate_tight_bbox_from_lines blk) of (x1, y1, x2, y2) \<Rightarrow>
        bind_io (draw_on env debug_pil (Rectangle (x1, y1, x2, y2) (Some [0, 255, 0]) None 3)) (\<lambda>_.
        bind_io (draw_on env debug_pil
                   (DrawText (x1, max (y1 - 25) 5) (str_nat (i + 1)) [0, 255, 0] fnt)) (\<lambda>_.
        bind_io (draw_extracted_text env fnt (x1, y1, x2, y2) (res_text text_result) debug_pil) (\<lambda>_.
        draw_lines env (lines_array blk) debug_pil))))"

fun draw_blocks ::
  "env \<Rightarrow> font \<Rightarrow> (nat \<times> text_block \<times> result_blk) list \<Rightarrow> nat \<Rightarrow> nat io" where
  "draw_blocks env fnt [] debug_pil = return_io debug_pil"
| "draw_blocks env fnt ((i, blk, text_result) # rest) debug_pil =
     bind_io (draw_block env fnt i blk text_result debug_pil) (\<lambda>debug_pil'.
     draw_blocks env fnt rest debug_pil')"

text \<open>Lines 390 to 474: the address of \<open>final_debug_img\<close>.\<close>

definition annotate :: "env \<Rightarrow> nat \<Rightarrow> text_block list \<Rightarrow> result_blk list \<Rightarrow> nat io" where
  "annotate env img blk_list text_results =
     bind_io (open_canvas env img) (\<lambda>debug_pil.
     bind_io (\<lambda>w. (load_font env, w)) (\<lambda>fnt.
     bind_io (draw_blocks env fnt (enumerate 0 (zip blk_list text_results)) debug_pil) (\<lambda>debug_pil'.
     bind_io (new_from (np_array env) debug_pil') (\<lambda>arr.
     new_from (cvtColor env) arr))))"

text \<open>
  \<open>original_path.parent / f"{original_path.stem}_debug{original_path.suffix}"\<close>, as a
  string; the operations of \<open>pathlib\<close> are the environment's.
\<close>

definition debug_path_of :: "env \<Rightarrow> ustr \<Rightarrow> ustr" where
  "debug_path_of env original_image_path =
     path_join env (path_parent env original_image_path)
       (path_stem env original_image_path @ py_str ''_debug'' @ path_suffix env original_image_path)"

text \<open>\<open>cv2.imwrite\<close>: when it returns true, the file holds the picture.\<close>

definition imwrite_io :: "env \<Rightarrow> ustr \<Rightarrow> nat \<Rightarrow> bool io" where
  "imwrite_io env path a w =
     (case imwrite env path (heap w ! a) of
        Inl e \<Rightarrow> (Inl e, w)
      | Inr ok \<Rightarrow> (Inr ok, if ok then w\<lparr>files := files w @ [(path, heap w ! a)]\<rparr> else w))"

text \<open>
  \<open>generate_debug_image_with_text\<close>: \<open>img\<close> is the address of the input image. It
  returns the path (or \<open>None\<close>) and \<open>debug_info\<close> as it leaves it.
\<close>

definition generate_debug_image_with_text ::
  "env \<Rightarrow> nat \<Rightarrow> text_block list \<Rightarrow> result_blk list \<Rightarrow> ustr \<Rightarrow> debug_entry list \<Rightarrow>
   world \<Rightarrow> (ustr option \<times> debug_entry list) \<times> world" where
  "generate_debug_image_with_text env img blk_list text_results original_image_path debug_info w =
     (let debug_path = debug_path_of env original_image_path in
      case bind_io (annotate env img blk_list text_results) (imwrite_io env debug_path) w of
        (Inr ok, w') \<Rightarrow>
          if ok \<and> debug_path_exists env debug_path
          then ((Some debug_path, debug_info @ [DebugImageSaved debug_path]), w')
          else ((None, debug_info @ [FailedToSaveDebugImage debug_path]), w')
      | (Inl e, w') \<Rightarrow>
          ((None, debug_info @ [FailedToGenerateDebugImage (str_of e)]), w'))"

text \<open>The legacy entry point passes no text results.\<close>

definition generate_debug_image ::
  "env \<Rightarrow> nat \<Rightarrow> text_block list \<Rightarrow> ustr \<Rightarrow> debug_entry list \<Rightarrow>
   world \<Rightarrow> (ustr option \<times> debug_entry list) \<times> world" where
  "generate_debug_image env img blk_list original_image_path debug_info =
     generate_debug_image_with_text env img blk_list [] original_image_path debug_info"

section \<open>The detection pipeline\<close>

text \<open>
  \<open>run_ocr_detection\<close>: the response or the exception, and the files it wrote. The input
  image is the only buffer when the debug image is generated, at address 0. Whatever is
  raised inside is re-raised as \<open>"OCR detection failed: ..."\<close> with the traceback.
\<close>

definition detection_failed :: "env \<Rightarrow> exn \<Rightarrow> exn" where
  "detection_failed env e =
     Exception (py_str ''OCR detection failed: '' @ str_of e @ [10] @ format_exc env e)"

definition run_ocr_detection ::
  "env \<Rightarrow> models \<Rightarrow> ustr \<Rightarrow> ustr option \<Rightarrow> (exn + response) \<times> (ustr \<times> picture) list" where
  "run_ocr_detection env g image_path debug_image_base_path =
     (case text_detector g of
        None \<Rightarrow>
          (Inl (detection_failed env
             (Exception (py_str ''Models not initialized. Call initialize_models() first.''))), [])
      | Some td \<Rightarrow>
     (case manga_ocr g of
        None \<Rightarrow>
          (Inl (detection_failed env
             (Exception (py_str ''Models not initialized. Call initialize_models() first.''))), [])
      | Some m \<Rightarrow>
     (case imread env image_path of
        None \<Rightarrow> (Inl (detection_failed env (Exception (py_str ''Failed to load image''))), [])
      | Some img \<Rightarrow>
     (case td img 1 True of
        Inl e \<Rightarrow> (Inl (detection_failed env e), [])
      | Inr (mask_all, mask_refined, blk_list) \<Rightarrow>
     (case fold (process_block env m img) (enumerate 0 blk_list)
             ([], [FoundTextBlocks (length blk_list)]) of
        (results, debug_info) \<Rightarrow>
     (case
        (if GENERATE_DEBUG_IMAGES env then
           generate_debug_image_with_text env 0 blk_list results
             (case debug_image_base_path of
                None \<Rightarrow> image_path
              | Some base \<Rightarrow> if base \<noteq> [] then base else image_path)
             (debug_info @ [FinalResults (length results)])
             \<lparr>heap = [img], files = []\<rparr>
         else
           ((None, debug_info @ [FinalResults (length results)]),
            \<lparr>heap = [img], files = []\<rparr>)) of
        ((debug_image_path, debug_info'), w) \<Rightarrow>
          (Inr \<lparr>success = True,
                textBlocks = results,
                imageSize = \<lparr>size_width = cols img, size_height = rows img\<rparr>,
                debug = debug_info',
                debugImagePath = (if truthy debug_image_path then debug_image_path else None)\<rparr>,
           files w)))))))"

section \<open>The endpoint\<close>

record upload_file =
  filename :: "ustr option"
  content_type :: "ustr option"
  content :: "nat list"

text \<open>
  What the endpoint answers when it does not return the response: an \<open>HTTPException\<close> it
  raises itself, or an exception that escapes it.
\<close>

datatype http_error = HTTPException nat ustr | Unhandled exn

text \<open>
  \<open>detect_text\<close> (\<open>POST /ocr/detect\<close>): the answer, the model slots afterwards and the
  files written. Writing the upload to a temporary file and reading it back are the
  environment's \<open>save_upload\<close> and \<open>imread\<close>.
\<close>

definition detect_text ::
  "env \<Rightarrow> models \<Rightarrow> upload_file \<Rightarrow> ustr option \<Rightarrow>
   (http_error + response) \<times> models \<times> (ustr \<times> picture) list" where
  "detect_text env g file original_path =
     (case initialize_models env g of
        (Inl e, g') \<Rightarrow> (Inl (Unhandled e), g', [])
      | (Inr u, g') \<Rightarrow>
          if \<not> truthy (content_type file) \<or>
             take 6 (case content_type file of None \<Rightarrow> [] | Some ct \<Rightarrow> ct) \<noteq> py_str ''image/''
          then (Inl (HTTPException 400 (py_str ''File must be an image'')), g', [])
          else
            (case save_upload env (content file) of
               Inl e \<Rightarrow> (Inl (Unhandled e), g', [])
             | Inr tmp_file_path \<Rightarrow>
                 let debug_image_base_path =
                       (case original_path of
                          None \<Rightarrow> tmp_file_path
                        | Some p \<Rightarrow> if p \<noteq> [] then p else tmp_file_path) in
                 (case run_ocr_detection env g' tmp_file_path (Some debug_image_base_path) of
                    (Inr result, fs) \<Rightarrow> (Inr result, g', fs)
                  | (Inl e, fs) \<Rightarrow>
                      (Inl (HTTPException 500 (py_str ''OCR processing failed: '' @ str_of e)),
                       g', fs))))"

section \<open>A sample request\<close>

text \<open>
  A concrete environment and request on which the theorems below are instantiated: a page
  of 80 by 100 pixels with two blocks. The first block is vertical and has two line
  polygons; cropping its second line raises. The second block has no line polygons.
\<close>

definition sample_img :: picture where
  "sample_img = \<lparr>rows = 100, cols = 80, channels = BGR, pixels = [7], drawn = []\<rparr>"

definition sample_blk :: text_block where
  "sample_blk = \<lparr>xyxy = (8, 15, 40, 65),
     lines = [[(10, 20), (30, 20), (30, 40), (10, 40)], [(12, 45), (35, 45), (35, 60), (12, 60)]],
     vertical = True, font_size = Some 12\<rparr>"

definition sample_blk2 :: text_block where
  "sample_blk2 = \<lparr>xyxy = (5, 6, 70, 80), lines = [], vertical = False, font_size = None\<rparr>"

text \<open>
  A third block, given to the debug drawing alone: its line polygon has a negative, a
  fractional and a coordinate beyond the 32-bit range.
\<close>

definition sample_blk3 :: text_block where
  "sample_blk3 = \<lparr>xyxy = (0, 0, 50, 50),
     lines = [[(- 3 / 2, 5 / 2), (4294967297 / 2, 7 / 2), (20, 99 / 2)]],
     vertical = False, font_size = None\<rparr>"

definition sample_detector :: detector where
  "sample_detector img refine_mode keep = Inr (img, img, [sample_blk, sample_blk2])"

definition sample_ocr :: ocr where
  "sample_ocr pil = Inr (pixels pil)"

definition sample_env :: env where
  "sample_env = \<lparr>
     GENERATE_DEBUG_IMAGES = True,
     comic_detector_path = py_str ''/app/packages/comic_text_detector'',
     import_error = None,
     path_exists = (\<lambda>p. True),
     cuda_is_available = False,
     TextDetector = (\<lambda>p n d a. Inr sample_detector),
     MangaOcr = Inr sample_ocr,
     save_upload = (\<lambda>c. Inr (py_str ''/tmp/tmpab.jpg'')),
     imread = (\<lambda>p. Some sample_img),
     get_transformed_region =
       (\<lambda>blk img i fs. if i = 1 then Inl (Exception (py_str ''empty crop''))
                        else Inr (img\<lparr>pixels := [12354 + i]\<rparr>)),
     rotate_90_clockwise = (\<lambda>p. Inr (p\<lparr>rows := cols p, cols := rows p\<rparr>)),
     raises = (\<lambda>c. None),
     textbbox = (\<lambda>xy s f. Inr (fst xy, snd xy, fst xy + 24 * int (length s), snd xy + 24)),
     imwrite = (\<lambda>p pic. Inr True),
     debug_path_exists = (\<lambda>p. True),
     path_parent = (\<lambda>p. py_str ''/tmp''),
     path_stem = (\<lambda>p. py_str ''tmpab''),
     path_suffix = (\<lambda>p. py_str ''.jpg''),
     path_join = (\<lambda>d n. d @ py_str ''/'' @ n),
     format_exc = (\<lambda>e. []),
     int32_overflow = (\<lambda>x. - 2147483648)\<rparr>"

definition sample_models :: models where
  "sample_models = \<lparr>text_detector = Some sample_detector, manga_ocr = Some sample_ocr\<rparr>"

definition sample_file :: upload_file where
  "sample_file = \<lparr>filename = Some (py_str ''page.jpg''),
     content_type = Some (py_str ''image/jpeg''), content = [255, 216]\<rparr>"

definition sample_debug_path :: ustr where
  "sample_debug_path = py_str ''/tmp/tmpab_debug.jpg''"

definition sample_font :: font where
  "sample_font =
     FreeTypeFont (py_str ''/app/packages/comic_text_detector/data/examples/fonts/msgothic.ttc'') 24"

definition sample_response :: response where
  "sample_response = \<lparr>success = True,
        textBlocks =
          [\<lparr>res_bbox = [10, 20, 35, 60], res_width = 25, res_height = 40,
              res_vertical = True, res_font_size = Some 12, res_lines = 2,
              res_confidence = 1, res_text = [12354],
              res_text_lines = [[12354], []]\<rparr>,
           \<lparr>res_bbox = [5, 6, 70, 80], res_width = 65, res_height = 74,
              res_vertical = False, res_font_size = None, res_lines = 0,
              res_confidence = 1, res_text = [], res_text_lines = []\<rparr>],
        imageSize = \<lparr>size_width = 80, size_height = 100\<rparr>,
        debug =
          [FoundTextBlocks 2,
           FailedToExtractLine 1 1 (py_str ''empty crop''),
           BlockSummary 1 [10, 20, 35, 60] True (Some 12) 2 [12354],
           BlockSummary 2 [5, 6, 70, 80] False None 0 [], FinalResults 2,
           DebugImageSaved sample_debug_path],
        debugImagePath = Some sample_debug_path\<rparr>"

definition sample_debug_image :: picture where
  "sample_debug_image = \<lparr>rows = 100, cols = 80, channels = BGR, pixels = [7],
      drawn =
        [Rectangle (10, 20, 35, 60) (Some [0, 255, 0]) None 3,
         DrawText (10, 5) (py_str ''1'') [0, 255, 0] sample_font,
         Rectangle (8, 68, 36, 96) None (Some [255, 255, 255, 200]) 1,
         DrawText (10, 70) [12354] [255, 0, 0] sample_font,
         Polylines [[(10, 20), (30, 20), (30, 40), (10, 40)]] True [255, 165, 0] 2,
         Polylines [[(12, 45), (35, 45), (35, 60), (12, 60)]] True [255, 165, 0] 2,
         Rectangle (5, 6, 70, 80) (Some [0, 255, 0]) None 3,
         DrawText (5, 5) (py_str ''2'') [0, 255, 0] sample_font]\<rparr>"

text \<open>
  A second OCR model, whose output shows what it was given: the pixel data (each value
  raised by one), the number of rows, and whether the picture is in RGB order. It is
  used with the debug image switched off.
\<close>

definition sample_reader :: ocr where
  "sample_reader pil =
     Inr (map Suc (pixels pil) @ [rows pil, if channels pil = RGB then 1 else 0])"

definition sample_models2 :: models where
  "sample_models2 = \<lparr>text_detector = Some sample_detector, manga_ocr = Some sample_reader\<rparr>"

definition sample_env2 :: env where
  "sample_env2 = sample_env\<lparr>GENERATE_DEBUG_IMAGES := False\<rparr>"

definition sample_response2 :: response where
  "sample_response2 = \<lparr>success = True,
        textBlocks =
          [\<lparr>res_bbox = [10, 20, 35, 60], res_width = 25, res_height = 40,
              res_vertical = True, res_font_size = Some 12, res_lines = 2,
              res_confidence = 1, res_text = [12355, 80, 1],
              res_text_lines = [[12355, 80, 1], []]\<rparr>,
           \<lparr>res_bbox = [5, 6, 70, 80], res_width = 65, res_height = 74,
              res_vertical = False, res_font_size = None, res_lines = 0,
              res_confidence = 1, res_text = [], res_text_lines = []\<rparr>],
        imageSize = \<lparr>size_width = 80, size_height = 100\<rparr>,
        debug =
          [FoundTextBlocks 2,
           FailedToExtractLine 1 1 (py_str ''empty crop''),
           BlockSummary 1 [10, 20, 35, 60] True (Some 12) 2 [12355, 80, 1],
           BlockSummary 2 [5, 6, 70, 80] False None 0 [], FinalResults 2],
        debugImagePath = None\<rparr>"

section \<open>Shorthand for the statements\<close>

text \<open>
  Abbreviations only: each unfolds to the expression on its right. They name the value
  each loop of \<open>run_ocr_detection\<close> is shown to compute.
\<close>

abbreviation line_texts :: "env \<Rightarrow> ocr \<Rightarrow> picture \<Rightarrow> text_block \<Rightarrow> ustr list" where
  "line_texts env m img blk \<equiv>
     map (\<lambda>j. case extract_line env m img blk j of Inr t \<Rightarrow> t | Inl e \<Rightarrow> [])
       [0..<length (lines blk)]"

abbreviation line_notes :: "env \<Rightarrow> ocr \<Rightarrow> picture \<Rightarrow> nat \<Rightarrow> text_block \<Rightarrow> debug_entry list" where
  "line_notes env m img blk_idx blk \<equiv>
     concat (map (\<lambda>j. case extract_line env m img blk j of
                         Inr t \<Rightarrow> []
                       | Inl e \<Rightarrow> [FailedToExtractLine j (blk_idx + 1) (str_of e)])
       [0..<length (lines blk)])"

abbreviation block_entry :: "env \<Rightarrow> ocr \<Rightarrow> picture \<Rightarrow> text_block \<Rightarrow> result_blk" where
  "block_entry env m img blk \<equiv>
     (case int_box (calculate_tight_bbox_from_lines blk) of (x1, y1, x2, y2) \<Rightarrow>
        \<lparr>res_bbox = [x1, y1, x2, y2],
         res_width = x2 - x1,
         res_height = y2 - y1,
         res_vertical = vertical blk,
         res_font_size = font_size blk,
         res_lines = length (lines blk),
         res_confidence = 1,
         res_text = concat (line_texts env m img blk),
         res_text_lines = line_texts env m img blk\<rparr>)"

abbreviation block_notes :: "env \<Rightarrow> ocr \<Rightarrow> picture \<Rightarrow> nat \<times> text_block \<Rightarrow> debug_entry list" where
  "block_notes env m img ib \<equiv>
     (case ib of (blk_idx, blk) \<Rightarrow>
      case int_box (calculate_tight_bbox_from_lines blk) of (x1, y1, x2, y2) \<Rightarrow>
        line_notes env m img blk_idx blk @
        [BlockSummary (blk_idx + 1) [x1, y1, x2, y2] (vertical blk) (font_size blk)
           (length (lines blk))
           (take 50 (concat (line_texts env m img blk)) @
            (if length (concat (line_texts env m img blk)) > 50 then py_str ''...'' else []))])"

abbreviation debug_before :: "env \<Rightarrow> ocr \<Rightarrow> picture \<Rightarrow> text_block list \<Rightarrow> debug_entry list" where
  "debug_before env m img blks \<equiv>
     [FoundTextBlocks (length blks)] @ concat (map (block_notes env m img) (enumerate 0 blks)) @
     [FinalResults (length blks)]"

abbreviation debug_base :: "ustr \<Rightarrow> ustr option \<Rightarrow> ustr" where
  "debug_base image_path b \<equiv>
     (case b of None \<Rightarrow> image_path | Some base \<Rightarrow> if base \<noteq> [] then base else image_path)"

abbreviation debug_step ::
  "env \<Rightarrow> ocr \<Rightarrow> picture \<Rightarrow> text_block list \<Rightarrow> ustr \<Rightarrow> ustr option \<Rightarrow>
   (ustr option \<times> debug_entry list) \<times> world" where
  "debug_step env m img blks image_path b \<equiv>
     (if GENERATE_DEBUG_IMAGES env then
        generate_debug_image_with_text env 0 blks (map (block_entry env m img) blks)
          (debug_base image_path b) (debug_before env m img blks) \<lparr>heap = [img], files = []\<rparr>
      else ((None, debug_before env m img blks), \<lparr>heap = [img], files = []\<rparr>))"

section \<open>Assertions about buffer computations\<close>

text \<open>
  The vocabulary of the proofs about the debug image. \<open>ok h0 fs0 w\<close>: the buffers
  \<open>h0\<close> that existed at the start are still the first buffers of the world, unchanged, and
  the files are \<open>fs0\<close>. \<open>holds h0 fs0 k a p w\<close>: moreover the buffer at address
  \<open>a \<ge> k\<close> is \<open>p\<close>. \<open>triple P c Q E\<close>: from a world in \<open>P\<close>, the computation
  \<open>c\<close> ends in \<open>Q\<close> when it returns and in \<open>E\<close> when it raises.
  \<open>lib_raises env\<close>: some library call of the environment raises.
\<close>

definition ok :: "picture list \<Rightarrow> (ustr \<times> picture) list \<Rightarrow> world \<Rightarrow> bool" where
  "ok h0 fs0 w \<longleftrightarrow> length h0 \<le> length (heap w) \<and> take (length h0) (heap w) = h0 \<and> files w = fs0"

definition holds ::
  "picture list \<Rightarrow> (ustr \<times> picture) list \<Rightarrow> nat \<Rightarrow> nat \<Rightarrow> picture \<Rightarrow> world \<Rightarrow> bool" where
  "holds h0 fs0 k a p w \<longleftrightarrow> ok h0 fs0 w \<and> k \<le> a \<and> a < length (heap w) \<and> heap w ! a = p"

definition triple ::
  "(world \<Rightarrow> bool) \<Rightarrow> 'a io \<Rightarrow> ('a \<Rightarrow> world \<Rightarrow> bool) \<Rightarrow> (world \<Rightarrow> bool) \<Rightarrow> bool" where
  "triple P c Q E \<longleftrightarrow>
     (\<forall>w. P w \<longrightarrow> (case c w of (Inl e, w') \<Rightarrow> E w' | (Inr x, w') \<Rightarrow> Q x w'))"

definition lib_raises :: "env \<Rightarrow> bool" where
  "lib_raises env \<longleftrightarrow>
     (\<exists>c e. raises env c = Some e) \<or> (\<exists>xy s f e. textbbox env xy s f = Inl e)"

abbreviation failed :: "env \<Rightarrow> picture list \<Rightarrow> (ustr \<times> picture) list \<Rightarrow> world \<Rightarrow> bool" where
  "failed env h0 fs0 \<equiv> (\<lambda>w. ok h0 fs0 w \<and> lib_raises env)"

text \<open>
  The overlays of one block as the specification lists them, to be compared with what
  \<open>generate_debug_image_with_text\<close> draws: the rectangle of the tight bounding box, the
  label \<open>i + 1\<close>, the recognised text when it is not empty (above or below the box on a
  white background, cut to 30 characters and \<open>"..."\<close> when longer), and the outline of
  each line polygon.
\<close>

definition spec_text_overlay ::
  "env \<Rightarrow> font \<Rightarrow> int \<times> int \<times> int \<times> int \<Rightarrow> ustr \<Rightarrow> draw_op list" where
  "spec_text_overlay env fnt b t =
     (case b of (x1, y1, x2, y2) \<Rightarrow>
      if t = [] then []
      else
        let pos = (x1, if y1 > 50 then y1 - 50 else y2 + 10);
            shown = (if length t > 30 then take 30 t @ py_str ''...'' else t)
        in (case textbbox env pos shown fnt of
              Inl e \<Rightarrow> []
            | Inr (b0, b1, b2, b3) \<Rightarrow>
                [Rectangle (b0 - 2, b1 - 2, b2 + 2, b3 + 2) None (Some [255, 255, 255, 200]) 1,
                 DrawText pos shown [255, 0, 0] fnt]))"

definition spec_block_overlays ::
  "env \<Rightarrow> font \<Rightarrow> nat \<times> text_block \<times> result_blk \<Rightarrow> draw_op list" where
  "spec_block_overlays env fnt ibt =
     (case ibt of (i, blk, text_result) \<Rightarrow>
      case int_box (calculate_tight_bbox_from_lines blk) of (x1, y1, x2, y2) \<Rightarrow>
        [Rectangle (x1, y1, x2, y2) (Some [0, 255, 0]) None 3,
         DrawText (x1, max (y1 - 25) 5) (str_nat (i + 1)) [0, 255, 0] fnt] @
        spec_text_overlay env fnt (x1, y1, x2, y2) (res_text text_result) @
        map (\<lambda>line. Polylines [astype_int32 env line] True [255, 165, 0] 2) (lines_array blk))"

abbreviation drew :: "picture \<Rightarrow> draw_op list \<Rightarrow> picture" where
  "drew p ops \<equiv> p\<lparr>drawn := drawn p @ ops\<rparr>"

abbreviation debug_overlays ::
  "env \<Rightarrow> font \<Rightarrow> text_block list \<Rightarrow> result_blk list \<Rightarrow> draw_op list" where
  "debug_overlays env fnt blks trs \<equiv>
     concat (map (spec_block_overlays env fnt) (enumerate 0 (zip blks trs)))"

section \<open>Tight bounding box and the loops in closed form\<close>


lemma py_int_mono: "x \<le> y \<Longrightarrow> py_int x \<le> py_int y"
  unfolding py_int_def
  by (auto intro: floor_mono ceiling_mono order_trans[OF floor_le_ceiling] simp: not_le)
     (meson ceiling_mono floor_le_ceiling order_trans less_imp_le ceiling_le_zero zero_le_floor)+

lemma np_min_Min: "np_min xs = Min (set xs)" if "xs \<noteq> []"
proof (cases xs)
  case Nil
  then show ?thesis using that by simp
next
  case (Cons a l)
  show ?thesis unfolding Cons by (simp only: np_min.simps Min.set_eq_fold)
qed

lemma np_max_Max: "np_max xs = Max (set xs)" if "xs \<noteq> []"
proof (cases xs)
  case Nil
  then show ?thesis using that by simp
next
  case (Cons a l)
  show ?thesis unfolding Cons by (simp only: np_max.simps Max.set_eq_fold)
qed

lemma extend_loop: "fold (\<lambda>line acc. acc @ line) lns acc = acc @ concat lns"
  by (induction lns arbitrary: acc) simp_all

lemma tight_bbox_points:
  assumes "concat (lines blk) \<noteq> []"
  shows "calculate_tight_bbox_from_lines blk =
    (Min (fst ` set (concat (lines blk))), Min (snd ` set (concat (lines blk))),
     Max (fst ` set (concat (lines blk))), Max (snd ` set (concat (lines blk))))"
proof -
  let ?ps = "concat (lines blk)"
  from assms have ne: "length (lines blk) \<noteq> 0" by auto
  from assms have ne': "length ?ps \<noteq> 0" by simp
  have "calculate_tight_bbox_from_lines blk =
      (np_min (map fst ?ps), np_min (map snd ?ps), np_max (map fst ?ps), np_max (map snd ?ps))"
    unfolding calculate_tight_bbox_from_lines_def lines_array_def Let_def extend_loop append_Nil
    using ne ne' by (simp only: if_False)
  moreover have f: "map fst ?ps \<noteq> []" and s: "map snd ?ps \<noteq> []" using assms by simp_all
  ultimately show ?thesis
    by (simp only: np_min_Min[OF f] np_min_Min[OF s] np_max_Max[OF f] np_max_Max[OF s] set_map)
qed

lemma tight_bbox_fallback:
  "concat (lines blk) = [] \<Longrightarrow> calculate_tight_bbox_from_lines blk = xyxy blk"
  by (simp add: calculate_tight_bbox_from_lines_def lines_array_def extend_loop Let_def)


lemma fold_line_step:
  "fold (line_step env m img blk_idx blk) js (el, d) =
     (el @ map (\<lambda>j. case extract_line env m img blk j of Inr t \<Rightarrow> t | Inl e \<Rightarrow> []) js,
      d @ concat (map (\<lambda>j. case extract_line env m img blk j of
                         Inr t \<Rightarrow> []
                       | Inl e \<Rightarrow> [FailedToExtractLine j (blk_idx + 1) (str_of e)]) js))"
  by (induction js arbitrary: el d) (simp_all add: line_step_def split: sum.splits)

lemma process_block_eq:
  "process_block env m img (blk_idx, blk) (res, d) =
     (res @ [block_entry env m img blk], d @ block_notes env m img (blk_idx, blk))"
  by (simp add: process_block_def fold_line_step Let_def split: prod.splits)

lemma fold_process_block:
  "fold (process_block env m img) (enumerate k blks) (res, d) =
     (res @ map (block_entry env m img) blks,
      d @ concat (map (block_notes env m img) (enumerate k blks)))"
proof (induction blks arbitrary: k res d)
  case Nil
  show ?case by simp
next
  case (Cons blk blks)
  show ?case
    by (simp only: enumerate_simps fold_Cons o_apply process_block_eq Cons.IH
        list.map concat.simps append_assoc append_Cons append_Nil)
qed


lemma run_ocr_detection_loaded:
  assumes "text_detector g = Some td" "manga_ocr g = Some m" "imread env p = Some img"
    "td img 1 True = Inr (ma, mr, blks)"
  shows "run_ocr_detection env g p b =
    (Inr \<lparr>success = True,
          textBlocks = map (block_entry env m img) blks,
          imageSize = \<lparr>size_width = cols img, size_height = rows img\<rparr>,
          debug = snd (fst (debug_step env m img blks p b)),
          debugImagePath =
            (if truthy (fst (fst (debug_step env m img blks p b)))
             then fst (fst (debug_step env m img blks p b)) else None)\<rparr>,
     files (snd (debug_step env m img blks p b)))"
  using assms
  by (simp add: run_ocr_detection_def fold_process_block split: prod.splits)

lemma run_ocr_detection_Inr:
  assumes "run_ocr_detection env g p b = (Inr resp, fs)"
  shows "\<exists>td m img ma mr blks.
     text_detector g = Some td \<and> manga_ocr g = Some m \<and> imread env p = Some img \<and>
     td img 1 True = Inr (ma, mr, blks)"
  using assms
  by (auto simp: run_ocr_detection_def split: option.splits sum.splits prod.splits)

section \<open>The debug image: what is drawn, and on which buffer\<close>

lemma tripleI:
  assumes "\<And>w e w'. P w \<Longrightarrow> c w = (Inl e, w') \<Longrightarrow> E w'"
    and "\<And>w x w'. P w \<Longrightarrow> c w = (Inr x, w') \<Longrightarrow> Q x w'"
  shows "triple P c Q E"
  unfolding triple_def using assms by (auto split: prod.splits sum.splits)

lemma tripleD_Inr:
  assumes "triple P c Q E" and "P w" and "c w = (Inr x, w')"
  shows "Q x w'"
  using assms(1)[unfolded triple_def, rule_format, OF assms(2)] assms(3) by simp

lemma tripleD_Inl:
  assumes "triple P c Q E" and "P w" and "c w = (Inl e, w')"
  shows "E w'"
  using assms(1)[unfolded triple_def, rule_format, OF assms(2)] assms(3) by simp

lemma triple_bind:
  assumes "triple P c Q E" and "\<And>x. triple (Q x) (f x) R E"
  shows "triple P (bind_io c f) R E"
proof (rule tripleI)
  fix w e w' assume P: "P w" and r: "bind_io c f w = (Inl e, w')"
  obtain r1 w1 where c: "c w = (r1, w1)" by (cases "c w")
  show "E w'"
  proof (cases r1)
    case (Inl e1)
    with c r have "w' = w1" by (simp add: bind_io_def)
    with tripleD_Inl[OF assms(1) P] c Inl show ?thesis by simp
  next
    case (Inr x)
    with c r have "f x w1 = (Inl e, w')" by (simp add: bind_io_def)
    moreover have "Q x w1" using tripleD_Inr[OF assms(1) P] c Inr by simp
    ultimately show ?thesis using tripleD_Inl[OF assms(2)] by blast
  qed
next
  fix w y w' assume P: "P w" and r: "bind_io c f w = (Inr y, w')"
  obtain r1 w1 where c: "c w = (r1, w1)" by (cases "c w")
  show "R y w'"
  proof (cases r1)
    case (Inl e1)
    with c r show ?thesis by (simp add: bind_io_def)
  next
    case (Inr x)
    with c r have "f x w1 = (Inr y, w')" by (simp add: bind_io_def)
    moreover have "Q x w1" using tripleD_Inr[OF assms(1) P] c Inr by simp
    ultimately show ?thesis using tripleD_Inr[OF assms(2)] by blast
  qed
qed

lemma triple_return: "(\<And>w. P w \<Longrightarrow> Q x w) \<Longrightarrow> triple P (return_io x) Q E"
  by (rule tripleI) (simp_all add: return_io_def)

lemma triple_post:
  assumes "triple P c Q E" and "\<And>x w. Q x w \<Longrightarrow> Q' x w"
  shows "triple P c Q' E"
  using assms unfolding triple_def by (fastforce split: prod.splits sum.splits)

lemma holds_ok: "holds h0 fs0 k a p w \<Longrightarrow> ok h0 fs0 w"
  by (simp add: holds_def)

lemma lib_Inr: "lib env c r = Inr q \<Longrightarrow> q = r"
  by (simp add: lib_def split: option.splits)

lemma lib_Inl: "lib env c r = Inl e \<Longrightarrow> lib_raises env"
  by (auto simp: lib_def lib_raises_def split: option.splits)

lemma new_from_triple:
  assumes "\<And>q. f p = Inr q \<Longrightarrow> q = p'" and "\<And>e. f p = Inl e \<Longrightarrow> lib_raises env"
  shows "triple (holds h0 fs0 k a p) (new_from f a) (\<lambda>b. holds h0 fs0 (length h0) b p')
    (failed env h0 fs0)"
proof (rule tripleI)
  fix w e w' assume h: "holds h0 fs0 k a p w" and r: "new_from f a w = (Inl e, w')"
  from h have p: "heap w ! a = p" and o: "ok h0 fs0 w" by (simp_all add: holds_def)
  from r p have "f p = Inl e" and "w' = w"
    by (auto simp: new_from_def split: sum.splits)
  with o assms(2) show "ok h0 fs0 w' \<and> lib_raises env" by simp
next
  fix w b w' assume h: "holds h0 fs0 k a p w" and r: "new_from f a w = (Inr b, w')"
  from h have p: "heap w ! a = p" and o: "ok h0 fs0 w" by (simp_all add: holds_def)
  from r p obtain q where q: "f p = Inr q" and b: "b = length (heap w)"
    and w': "w' = w\<lparr>heap := heap w @ [q]\<rparr>"
    by (auto simp: new_from_def split: sum.splits)
  from assms(1)[OF q] have "q = p'" .
  with o b w' show "holds h0 fs0 (length h0) b p' w'"
    by (simp add: holds_def ok_def)
qed

lemma draw_on_triple:
  "triple (holds h0 fs0 (length h0) a p) (draw_on env a op)
     (\<lambda>u. holds h0 fs0 (length h0) a (p\<lparr>drawn := drawn p @ [op]\<rparr>)) (failed env h0 fs0)"
proof (rule tripleI)
  fix w e w' assume "holds h0 fs0 (length h0) a p w" "draw_on env a op w = (Inl e, w')"
  then show "ok h0 fs0 w' \<and> lib_raises env"
    by (auto simp: holds_def draw_on_def lib_raises_def split: option.splits)
next
  fix w u w' assume h: "holds h0 fs0 (length h0) a p w" and r: "draw_on env a op w = (Inr u, w')"
  from r have w': "w' = w\<lparr>heap := (heap w)[a := (heap w ! a)\<lparr>drawn := drawn (heap w ! a) @ [op]\<rparr>]\<rparr>"
    by (auto simp: draw_on_def split: option.splits)
  from h show "holds h0 fs0 (length h0) a (p\<lparr>drawn := drawn p @ [op]\<rparr>) w'"
    unfolding w' by (simp add: holds_def ok_def)
qed

lemma image_draw_triple:
  "triple (holds h0 fs0 k a p) (image_draw env a) (\<lambda>b. holds h0 fs0 k b p) (failed env h0 fs0)"
  by (rule tripleI) (auto simp: image_draw_def holds_def dest: lib_Inr lib_Inl)

lemma swap_rb_swap_rb [simp]: "swap_rb (swap_rb p) = p"
  by (cases "channels p") (simp_all add: swap_rb_def)

lemma drawn_swap_rb [simp]: "drawn (swap_rb p) = drawn p"
  by (simp add: swap_rb_def)

lemma swap_rb_drawn_update [simp]: "swap_rb (p\<lparr>drawn := d\<rparr>) = (swap_rb p)\<lparr>drawn := d\<rparr>"
  by (simp add: swap_rb_def)

lemma cvtColor_Inr: "cvtColor env p = Inr q \<Longrightarrow> q = swap_rb p"
  by (simp add: cvtColor_def lib_Inr)

lemma fromarray_Inr: "fromarray env p = Inr q \<Longrightarrow> q = p"
  by (simp add: fromarray_def lib_Inr)

lemma np_array_Inr: "np_array env p = Inr q \<Longrightarrow> q = p"
  by (simp add: np_array_def lib_Inr)

lemma ndarray_copy_Inr: "ndarray_copy env p = Inr q \<Longrightarrow> q = p"
  by (simp add: ndarray_copy_def lib_Inr)

lemma new_cvtColor:
  "triple (holds h0 fs0 k a p) (new_from (cvtColor env) a)
     (\<lambda>b. holds h0 fs0 (length h0) b (swap_rb p)) (failed env h0 fs0)"
  by (rule new_from_triple) (auto simp: cvtColor_def dest: lib_Inr lib_Inl)

lemma new_fromarray:
  "triple (holds h0 fs0 k a p) (new_from (fromarray env) a)
     (\<lambda>b. holds h0 fs0 (length h0) b p) (failed env h0 fs0)"
  by (rule new_from_triple) (auto simp: fromarray_def dest: lib_Inr lib_Inl)

lemma new_np_array:
  "triple (holds h0 fs0 k a p) (new_from (np_array env) a)
     (\<lambda>b. holds h0 fs0 (length h0) b p) (failed env h0 fs0)"
  by (rule new_from_triple) (auto simp: np_array_def dest: lib_Inr lib_Inl)

lemma new_ndarray_copy:
  "triple (holds h0 fs0 k a p) (new_from (ndarray_copy env) a)
     (\<lambda>b. holds h0 fs0 (length h0) b p) (failed env h0 fs0)"
  by (rule new_from_triple) (auto simp: ndarray_copy_def dest: lib_Inr lib_Inl)

lemma drew_drew: "drew (drew p xs) ys = drew p (xs @ ys)"
  by simp

lemma drew_Nil: "drew p [] = p"
  by simp

lemma draw_lines_triple:
  "triple (holds h0 fs0 (length h0) a p) (draw_lines env lns a)
     (\<lambda>b. holds h0 fs0 (length h0) b
        (drew p (map (\<lambda>line. Polylines [astype_int32 env line] True [255, 165, 0] 2) lns)))
     (failed env h0 fs0)"
proof (induction lns arbitrary: a p)
  case Nil
  show ?case by (simp add: triple_return)
next
  case (Cons line rest)
  let ?op = "Polylines [astype_int32 env line] True [255, 165, 0] 2"
  have step: "triple (holds h0 fs0 (length h0) b (drew p [?op])) (draw_lines env rest b)
     (\<lambda>b. holds h0 fs0 (length h0) b
        (drew p (map (\<lambda>line. Polylines [astype_int32 env line] True [255, 165, 0] 2) (line # rest))))
     (failed env h0 fs0)" for b
    using Cons.IH[of b "drew p [?op]"] by simp
  show ?case
    unfolding draw_lines.simps
    apply (rule triple_bind[OF new_np_array])
    apply (rule triple_bind[OF new_cvtColor])
    apply (rule triple_bind[OF draw_on_triple])
    apply (rule triple_bind[OF new_cvtColor])
    apply (rule triple_bind[OF new_fromarray])
    apply (rule triple_bind[OF image_draw_triple])
    using step by simp
qed

lemma triple_pre:
  assumes "triple P c Q E" and "\<And>w. P' w \<Longrightarrow> P w"
  shows "triple P' c Q E"
proof (rule tripleI)
  fix w e w' assume "P' w" and "c w = (Inl e, w')"
  then show "E w'" using tripleD_Inl[OF assms(1) assms(2)] by simp
next
  fix w x w' assume "P' w" and "c w = (Inr x, w')"
  then show "Q x w'" using tripleD_Inr[OF assms(1) assms(2)] by simp
qed

lemma triple_raise: "(\<And>w. P w \<Longrightarrow> E w) \<Longrightarrow> triple P (\<lambda>w. (Inl e, w)) Q E"
  by (rule tripleI) simp_all

lemma bind_io_Inr: "bind_io (\<lambda>w. (Inr x, w)) f = f x"
  by (rule ext) (simp add: bind_io_def)

lemma bind_io_Inl: "bind_io (\<lambda>w. (Inl e, w)) f = (\<lambda>w. (Inl e, w))"
  by (rule ext) (simp add: bind_io_def)

lemma draw_extracted_text_triple:
  "triple (holds h0 fs0 (length h0) a p) (draw_extracted_text env fnt b t a)
     (\<lambda>u. holds h0 fs0 (length h0) a (drew p (spec_text_overlay env fnt b t)))
     (failed env h0 fs0)"
proof -
  obtain x1 y1 x2 y2 where b: "b = (x1, y1, x2, y2)" by (cases b)
  show ?thesis
  proof (cases "t = []")
    case True
    then show ?thesis
      by (simp add: b draw_extracted_text_def spec_text_overlay_def triple_return)
  next
    case False
    let ?pos = "(x1, if y1 > 50 then y1 - 50 else y2 + 10)"
    show ?thesis
    proof (cases "textbbox env ?pos (display_text t) fnt")
      case (Inl e)
      then have "lib_raises env" unfolding lib_raises_def by blast
      with False Inl show ?thesis
        by (simp add: b draw_extracted_text_def spec_text_overlay_def display_text_def
            bind_io_Inl triple_raise holds_ok)
    next
      case (Inr bb)
      obtain b0 b1 b2 b3 where bb: "bb = (b0, b1, b2, b3)" by (cases bb)
      have "triple (holds h0 fs0 (length h0) a p)
          (bind_io (draw_on env a
                     (Rectangle (b0 - 2, b1 - 2, b2 + 2, b3 + 2) None (Some [255, 255, 255, 200]) 1))
             (\<lambda>_. draw_on env a (DrawText ?pos (display_text t) [255, 0, 0] fnt)))
          (\<lambda>u. holds h0 fs0 (length h0) a
             (drew p [Rectangle (b0 - 2, b1 - 2, b2 + 2, b3 + 2) None (Some [255, 255, 255, 200]) 1,
                      DrawText ?pos (display_text t) [255, 0, 0] fnt]))
          (failed env h0 fs0)"
        apply (rule triple_bind[OF draw_on_triple])
        apply (rule triple_post[OF draw_on_triple])
        by simp
      with False Inr bb show ?thesis
        by (simp add: b draw_extracted_text_def spec_text_overlay_def display_text_def
            bind_io_Inr Let_def)
    qed
  qed
qed

lemma draw_block_triple:
  "triple (holds h0 fs0 (length h0) a p) (draw_block env fnt i blk tr a)
     (\<lambda>b. holds h0 fs0 (length h0) b (drew p (spec_block_overlays env fnt (i, blk, tr))))
     (failed env h0 fs0)"
proof -
  obtain x1 y1 x2 y2 where b: "int_box (calculate_tight_bbox_from_lines blk) = (x1, y1, x2, y2)"
    by (cases "int_box (calculate_tight_bbox_from_lines blk)")
  show ?thesis
    unfolding draw_block_def b prod.case
    apply (rule triple_bind[OF draw_on_triple])
    apply (rule triple_bind[OF draw_on_triple])
    apply (rule triple_bind[OF draw_extracted_text_triple])
    apply (rule triple_post[OF draw_lines_triple])
    by (simp add: spec_block_overlays_def b)
qed

lemma draw_blocks_triple:
  "triple (holds h0 fs0 (length h0) a p) (draw_blocks env fnt xs a)
     (\<lambda>b. holds h0 fs0 (length h0) b (drew p (concat (map (spec_block_overlays env fnt) xs))))
     (failed env h0 fs0)"
proof (induction xs arbitrary: a p)
  case Nil
  show ?case by (simp add: triple_return)
next
  case (Cons x xs)
  obtain i blk tr where x: "x = (i, blk, tr)" by (cases x)
  show ?case
    unfolding x draw_blocks.simps
    apply (rule triple_bind[OF draw_block_triple])
    apply (rule triple_post[OF Cons.IH])
    by simp
qed

lemma open_canvas_triple:
  "triple (holds h0 fs0 k img p) (open_canvas env img)
     (\<lambda>a. holds h0 fs0 (length h0) a (swap_rb p)) (failed env h0 fs0)"
  unfolding open_canvas_def
  apply (rule triple_bind[OF new_ndarray_copy])
  apply (rule triple_bind[OF new_cvtColor])
  apply (rule triple_bind[OF new_fromarray])
  by (rule image_draw_triple)

lemma load_font_Inl: "load_font env = Inl e \<Longrightarrow> lib_raises env"
  by (auto simp: load_font_def load_default_def split: option.splits sum.splits dest: lib_Inl)

lemma annotate_triple:
  "triple (holds h0 fs0 k img p) (annotate env img blks trs)
     (\<lambda>a w. \<exists>fnt. load_font env = Inr fnt \<and>
        holds h0 fs0 (length h0) a
          (drew p (concat (map (spec_block_overlays env fnt) (enumerate 0 (zip blks trs))))) w)
     (failed env h0 fs0)"
proof (cases "load_font env")
  case (Inl e)
  show ?thesis
    unfolding annotate_def Inl bind_io_Inl
    apply (rule triple_bind[OF open_canvas_triple])
    by (rule triple_raise) (simp add: holds_ok load_font_Inl[OF Inl])
next
  case (Inr fnt)
  show ?thesis
    unfolding annotate_def Inr bind_io_Inr
    apply (rule triple_bind[OF open_canvas_triple])
    apply (rule triple_bind[OF draw_blocks_triple])
    apply (rule triple_bind[OF new_np_array])
    apply (rule triple_post[OF new_cvtColor])
    by simp
qed

lemma triple_exn:
  assumes "triple P c Q E" and "\<And>w. E w \<Longrightarrow> E' w"
  shows "triple P c Q E'"
proof (rule tripleI)
  fix w e w' assume "P w" and "c w = (Inl e, w')"
  then show "E' w'" using tripleD_Inl[OF assms(1)] assms(2) by blast
next
  fix w x w' assume "P w" and "c w = (Inr x, w')"
  then show "Q x w'" using tripleD_Inr[OF assms(1)] by blast
qed

lemma imwrite_io_triple:
  "triple (holds h0 fs0 k a p) (imwrite_io env dp a)
     (\<lambda>b w. ok h0 (if b then fs0 @ [(dp, p)] else fs0) w \<and> imwrite env dp p = Inr b)
     (\<lambda>w. ok h0 fs0 w \<and> (\<exists>e. imwrite env dp p = Inl e))"
  by (rule tripleI) (auto simp: imwrite_io_def holds_def ok_def split: sum.splits)

lemma annotate_imwrite_Inr:
  assumes "load_font env = Inr fnt"
  shows "triple (holds h0 fs0 k img p)
     (bind_io (annotate env img blks trs) (imwrite_io env dp))
     (\<lambda>b w. ok h0 (if b then fs0 @ [(dp, drew p (debug_overlays env fnt blks trs))] else fs0) w \<and>
        imwrite env dp (drew p (debug_overlays env fnt blks trs)) = Inr b)
     (\<lambda>w. ok h0 fs0 w \<and>
        (lib_raises env \<or> (\<exists>e. imwrite env dp (drew p (debug_overlays env fnt blks trs)) = Inl e)))"
proof (rule triple_bind)
  show "triple (holds h0 fs0 k img p) (annotate env img blks trs)
      (\<lambda>a. holds h0 fs0 (length h0) a (drew p (debug_overlays env fnt blks trs)))
      (\<lambda>w. ok h0 fs0 w \<and>
        (lib_raises env \<or> (\<exists>e. imwrite env dp (drew p (debug_overlays env fnt blks trs)) = Inl e)))"
    apply (rule triple_exn)
     apply (rule triple_post[OF annotate_triple])
    using assms by auto
next
  fix a
  show "triple (holds h0 fs0 (length h0) a (drew p (debug_overlays env fnt blks trs)))
      (imwrite_io env dp a)
      (\<lambda>b w. ok h0 (if b then fs0 @ [(dp, drew p (debug_overlays env fnt blks trs))] else fs0) w \<and>
        imwrite env dp (drew p (debug_overlays env fnt blks trs)) = Inr b)
      (\<lambda>w. ok h0 fs0 w \<and>
        (lib_raises env \<or> (\<exists>e. imwrite env dp (drew p (debug_overlays env fnt blks trs)) = Inl e)))"
    by (rule triple_exn[OF imwrite_io_triple]) simp
qed

lemma annotate_imwrite_Inl:
  assumes "load_font env = Inl e"
  shows "triple (holds h0 fs0 k img p)
     (bind_io (annotate env img blks trs) (imwrite_io env dp))
     (\<lambda>b w. False) (failed env h0 fs0)"
proof (rule triple_bind)
  show "triple (holds h0 fs0 k img p) (annotate env img blks trs) (\<lambda>a w. False) (failed env h0 fs0)"
    apply (rule triple_post[OF annotate_triple])
    using assms by simp
next
  fix a
  show "triple (\<lambda>w. False) (imwrite_io env dp a) (\<lambda>b w. False) (failed env h0 fs0)"
    by (rule tripleI) simp_all
qed

lemma holds_initial: "img < length (heap w) \<Longrightarrow> holds (heap w) (files w) 0 img (heap w ! img) w"
  by (simp add: holds_def ok_def)

lemma generate_outcome:
  assumes img: "img < length (heap w)"
  obtains
    (saved) fnt w' where
      "load_font env = Inr fnt"
      "imwrite env (debug_path_of env path)
         (drew (heap w ! img) (debug_overlays env fnt blks trs)) = Inr True"
      "debug_path_exists env (debug_path_of env path)"
      "generate_debug_image_with_text env img blks trs path d w =
         ((Some (debug_path_of env path), d @ [DebugImageSaved (debug_path_of env path)]), w')"
      "files w' = files w @
         [(debug_path_of env path, drew (heap w ! img) (debug_overlays env fnt blks trs))]"
      "take (length (heap w)) (heap w') = heap w"
  | (missing) fnt w' where
      "load_font env = Inr fnt"
      "imwrite env (debug_path_of env path)
         (drew (heap w ! img) (debug_overlays env fnt blks trs)) = Inr True"
      "\<not> debug_path_exists env (debug_path_of env path)"
      "generate_debug_image_with_text env img blks trs path d w =
         ((None, d @ [FailedToSaveDebugImage (debug_path_of env path)]), w')"
      "files w' = files w @
         [(debug_path_of env path, drew (heap w ! img) (debug_overlays env fnt blks trs))]"
      "take (length (heap w)) (heap w') = heap w"
  | (unwritten) fnt w' where
      "load_font env = Inr fnt"
      "imwrite env (debug_path_of env path)
         (drew (heap w ! img) (debug_overlays env fnt blks trs)) = Inr False"
      "generate_debug_image_with_text env img blks trs path d w =
         ((None, d @ [FailedToSaveDebugImage (debug_path_of env path)]), w')"
      "files w' = files w"
      "take (length (heap w)) (heap w') = heap w"
  | (raised) e w' where
      "lib_raises env \<or>
       (\<exists>fnt e'. load_font env = Inr fnt \<and>
          imwrite env (debug_path_of env path)
            (drew (heap w ! img) (debug_overlays env fnt blks trs)) = Inl e')"
      "generate_debug_image_with_text env img blks trs path d w =
         ((None, d @ [FailedToGenerateDebugImage (str_of e)]), w')"
      "files w' = files w"
      "take (length (heap w)) (heap w') = heap w"
proof -
  let ?dp = "debug_path_of env path"
  let ?c = "bind_io (annotate env img blks trs) (imwrite_io env ?dp)"
  note h = holds_initial[OF img]
  obtain r w' where c: "?c w = (r, w')" by (cases "?c w")
  have gen: "generate_debug_image_with_text env img blks trs path d w =
      (case r of
         Inr b \<Rightarrow>
           if b \<and> debug_path_exists env ?dp
           then ((Some ?dp, d @ [DebugImageSaved ?dp]), w')
           else ((None, d @ [FailedToSaveDebugImage ?dp]), w')
       | Inl e \<Rightarrow> ((None, d @ [FailedToGenerateDebugImage (str_of e)]), w'))"
    by (simp add: generate_debug_image_with_text_def c Let_def split: sum.splits)
  show thesis
  proof (cases "load_font env")
    case (Inl e)
    show thesis
    proof (cases r)
      case (Inl e1)
      from tripleD_Inl[OF annotate_imwrite_Inl[OF \<open>load_font env = Inl e\<close>] h] c Inl
      have "ok (heap w) (files w) w'" and "lib_raises env" by simp_all
      then show thesis using raised[of e1 w'] gen Inl by (simp add: ok_def)
    next
      case (Inr b)
      from c Inr have "?c w = (Inr b, w')" by simp
      from tripleD_Inr[OF annotate_imwrite_Inl[OF \<open>load_font env = Inl e\<close>] h this]
      show thesis by simp
    qed
  next
    case (Inr fnt)
    let ?pic = "drew (heap w ! img) (debug_overlays env fnt blks trs)"
    show thesis
    proof (cases r)
      case (Inl e1)
      from tripleD_Inl[OF annotate_imwrite_Inr[OF \<open>load_font env = Inr fnt\<close>] h] c Inl
      have "ok (heap w) (files w) w'"
        and "lib_raises env \<or> (\<exists>e. imwrite env ?dp ?pic = Inl e)" by simp_all
      then show thesis using raised[of e1 w'] gen Inl \<open>load_font env = Inr fnt\<close>
        by (auto simp: ok_def)
    next
      case b: (Inr b)
      from tripleD_Inr[OF annotate_imwrite_Inr[OF \<open>load_font env = Inr fnt\<close>] h] c b
      have o: "ok (heap w) (if b then files w @ [(?dp, ?pic)] else files w) w'"
        and i: "imwrite env ?dp ?pic = Inr b" by simp_all
      show thesis
      proof (cases b)
        case False
        with o i gen b show thesis
          using unwritten[of fnt w'] \<open>load_font env = Inr fnt\<close> by (simp add: ok_def)
      next
        case True
        show thesis
        proof (cases "debug_path_exists env ?dp")
          case ex: True
          with o i gen b True show thesis
            using saved[of fnt w'] \<open>load_font env = Inr fnt\<close> by (simp add: ok_def)
        next
          case ex: False
          with o i gen b True show thesis
            using missing[of fnt w'] \<open>load_font env = Inr fnt\<close> by (simp add: ok_def)
        qed
      qed
    qed
  qed
qed

section \<open>Model initialisation: the guard\<close>

lemma initialize_models_loaded:
  "text_detector g \<noteq> None \<Longrightarrow> manga_ocr g \<noteq> None \<Longrightarrow> initialize_models env g = (Inr (), g)"
  by (auto simp: initialize_models_def)

lemma initialize_models_Inr:
  assumes "initialize_models env g = (Inr u, g')"
  shows "text_detector g' \<noteq> None \<and> manga_ocr g' \<noteq> None"
  using assms
  by (auto simp: initialize_models_def Let_def split: if_splits option.splits sum.splits)

lemma initialize_models_changes:
  assumes "snd (initialize_models env g) \<noteq> g"
  shows "text_detector g = None \<or> manga_ocr g = None"
  using assms initialize_models_loaded[of g env] by fastforce

lemma detect_text_models:
  "fst (snd (detect_text env g upl original_path)) = snd (initialize_models env g)"
  by (simp add: detect_text_def Let_def split: prod.splits sum.splits)

section \<open>The endpoint: when it answers with the response\<close>

lemma detect_text_Inr:
  assumes "detect_text env g upl original_path = (Inr resp, g2, fs)"
  shows "\<exists>u tmp. initialize_models env g = (Inr u, g2) \<and>
     save_upload env (content upl) = Inr tmp \<and>
     run_ocr_detection env g2 tmp (Some (debug_base tmp original_path)) = (Inr resp, fs)"
  using assms
  by (auto simp: detect_text_def Let_def split: prod.splits sum.splits if_splits)

lemma detect_text_loaded:
  assumes "initialize_models env g = (Inr u, g2)"
    and "truthy (content_type upl)"
    and "take 6 (case content_type upl of None \<Rightarrow> [] | Some ct \<Rightarrow> ct) = py_str ''image/''"
    and "save_upload env (content upl) = Inr tmp"
  shows "detect_text env g upl original_path =
    (case run_ocr_detection env g2 tmp (Some (debug_base tmp original_path)) of
       (Inr result, fs) \<Rightarrow> (Inr result, g2, fs)
     | (Inl e, fs) \<Rightarrow>
         (Inl (HTTPException 500 (py_str ''OCR processing failed: '' @ str_of e)), g2, fs))"
  using assms by (simp add: detect_text_def Let_def)

section \<open>The sample request, evaluated\<close>

lemma sample_extract0:
  "extract_line sample_env sample_ocr sample_img sample_blk 0 = Inr [12354]"
  by (simp add: extract_line_def line_pil_def sample_env_def sample_blk_def sample_ocr_def
      sample_img_def cvtColor_def fromarray_def lib_def font_size_or_20_def swap_rb_def)

lemma sample_extract1:
  "extract_line sample_env sample_ocr sample_img sample_blk (Suc 0) =
     Inl (Exception (py_str ''empty crop''))"
  by (simp add: extract_line_def line_pil_def sample_env_def sample_blk_def sample_ocr_def
      sample_img_def cvtColor_def fromarray_def lib_def font_size_or_20_def swap_rb_def)

lemma sample_bbox: "calculate_tight_bbox_from_lines sample_blk = (10, 20, 35, 60)"
  by (simp add: calculate_tight_bbox_from_lines_def lines_array_def sample_blk_def)

lemma sample_bbox2: "calculate_tight_bbox_from_lines sample_blk2 = (5, 6, 70, 80)"
  by (simp add: calculate_tight_bbox_from_lines_def lines_array_def sample_blk2_def)

lemma sample_lines: "length (lines sample_blk) = 2" "lines sample_blk2 = []"
  by (simp_all add: sample_blk_def sample_blk2_def)

lemma upt_0_2: "[0..<2] = [0, Suc 0]"
  by (simp add: numeral_2_eq_2)

lemma sample_entry1:
  "block_entry sample_env sample_ocr sample_img sample_blk =
     \<lparr>res_bbox = [10, 20, 35, 60], res_width = 25, res_height = 40,
      res_vertical = True, res_font_size = Some 12, res_lines = 2,
      res_confidence = 1, res_text = [12354], res_text_lines = [[12354], []]\<rparr>"
  by (simp add: sample_bbox sample_lines upt_0_2 sample_extract0 sample_extract1 py_int_def)
     (simp add: sample_blk_def)

lemma sample_entry2:
  "block_entry sample_env sample_ocr sample_img sample_blk2 =
     \<lparr>res_bbox = [5, 6, 70, 80], res_width = 65, res_height = 74,
      res_vertical = False, res_font_size = None, res_lines = 0,
      res_confidence = 1, res_text = [], res_text_lines = []\<rparr>"
  by (simp add: sample_bbox2 sample_lines py_int_def) (simp add: sample_blk2_def)

lemma sample_debug_before:
  "debug_before sample_env sample_ocr sample_img [sample_blk, sample_blk2] =
     [FoundTextBlocks 2,
      FailedToExtractLine 1 1 (py_str ''empty crop''),
      BlockSummary 1 [10, 20, 35, 60] True (Some 12) 2 [12354],
      BlockSummary 2 [5, 6, 70, 80] False None 0 [], FinalResults 2]"
  by (simp add: enumerate_simps sample_bbox sample_bbox2 sample_lines upt_0_2 sample_extract0
      sample_extract1 py_int_def)
     (simp add: sample_blk_def sample_blk2_def)


lemma sample_no_raise: "\<not> lib_raises sample_env"
  by (simp add: lib_raises_def sample_env_def)

lemma sample_load_font: "load_font sample_env = Inr sample_font"
  by (simp add: load_font_def font_paths_def sample_env_def lib_def sample_font_def py_str_def)

lemma sample_debug_path_of: "debug_path_of sample_env p = sample_debug_path"
  by (simp add: debug_path_of_def sample_env_def sample_debug_path_def py_str_def)

lemma sample_textbbox:
  "textbbox sample_env xy s f = Inr (fst xy, snd xy, fst xy + 24 * int (length s), snd xy + 24)"
  by (simp add: sample_env_def)

lemma sample_overlays:
  "drew sample_img (debug_overlays sample_env sample_font [sample_blk, sample_blk2]
       (textBlocks sample_response)) = sample_debug_image"
  by (simp add: enumerate_simps spec_block_overlays_def spec_text_overlay_def sample_bbox
        sample_bbox2 py_int_def sample_textbbox sample_response_def lines_array_def
        astype_int32_def to_int32_def str_nat.simps sample_debug_image_def sample_img_def py_str_def)
     (simp add: sample_blk_def sample_blk2_def py_int_def)

lemma sample_imwrite: "imwrite sample_env p pic = Inr True"
  by (simp add: sample_env_def)

lemma sample_exists: "debug_path_exists sample_env p"
  by (simp add: sample_env_def)

lemma sample_generate:
  "fst (generate_debug_image_with_text sample_env 0 [sample_blk, sample_blk2]
          (textBlocks sample_response) p d \<lparr>heap = [sample_img], files = []\<rparr>) =
     (Some sample_debug_path, d @ [DebugImageSaved sample_debug_path])"
  "files (snd (generate_debug_image_with_text sample_env 0 [sample_blk, sample_blk2]
          (textBlocks sample_response) p d \<lparr>heap = [sample_img], files = []\<rparr>)) =
     [(sample_debug_path, sample_debug_image)]"
proof -
  let ?w = "\<lparr>heap = [sample_img], files = []\<rparr>"
  have img: "0 < length (heap ?w)" by simp
  have pic: "drew (heap ?w ! 0) (debug_overlays sample_env sample_font [sample_blk, sample_blk2]
       (textBlocks sample_response)) = sample_debug_image"
    using sample_overlays by simp
  have both: "fst (generate_debug_image_with_text sample_env 0 [sample_blk, sample_blk2]
          (textBlocks sample_response) p d ?w) =
     (Some sample_debug_path, d @ [DebugImageSaved sample_debug_path]) \<and>
     files (snd (generate_debug_image_with_text sample_env 0 [sample_blk, sample_blk2]
          (textBlocks sample_response) p d ?w)) =
     [(sample_debug_path, sample_debug_image)]"
  proof (rule generate_outcome[OF img, of sample_env p "[sample_blk, sample_blk2]"
        "textBlocks sample_response" d], goal_cases)
    case (1 fnt w')
    from 1(1) have "fnt = sample_font" by (simp add: sample_load_font)
    with 1(4,5) pic show ?case by (simp add: sample_debug_path_of)
  next
    case (2 fnt w')
    then show ?case by (simp add: sample_exists)
  next
    case (3 fnt w')
    then show ?case by (simp add: sample_imwrite)
  next
    case (4 e w')
    then show ?case by (simp add: sample_no_raise sample_imwrite)
  qed
  then show
    "fst (generate_debug_image_with_text sample_env 0 [sample_blk, sample_blk2]
          (textBlocks sample_response) p d \<lparr>heap = [sample_img], files = []\<rparr>) =
     (Some sample_debug_path, d @ [DebugImageSaved sample_debug_path])"
    "files (snd (generate_debug_image_with_text sample_env 0 [sample_blk, sample_blk2]
          (textBlocks sample_response) p d \<lparr>heap = [sample_img], files = []\<rparr>)) =
     [(sample_debug_path, sample_debug_image)]"
    by simp_all
qed

lemma sample_entries:
  "map (block_entry sample_env sample_ocr sample_img) [sample_blk, sample_blk2] =
     textBlocks sample_response"
  using sample_entry1 sample_entry2 by (simp add: sample_response_def)

lemma sample_run_ocr:
  "run_ocr_detection sample_env sample_models (py_str ''/tmp/tmpab.jpg'') b =
     (Inr sample_response, [(sample_debug_path, sample_debug_image)])"
proof -
  have l: "text_detector sample_models = Some sample_detector"
    "manga_ocr sample_models = Some sample_ocr"
    "imread sample_env (py_str ''/tmp/tmpab.jpg'') = Some sample_img"
    "sample_detector sample_img 1 True = Inr (sample_img, sample_img, [sample_blk, sample_blk2])"
    by (simp_all add: sample_models_def sample_env_def sample_detector_def)
  have g: "GENERATE_DEBUG_IMAGES sample_env" by (simp add: sample_env_def)
  have t: "truthy (Some sample_debug_path)" by (simp add: sample_debug_path_def py_str_def)
  show ?thesis
    unfolding run_ocr_detection_loaded[OF l]
    using g t
    by (simp only: if_True sample_entries sample_debug_before sample_generate fst_conv snd_conv)
       (simp add: sample_response_def sample_img_def)
qed

lemma sample_run:
  "detect_text sample_env sample_models sample_file None =
     (Inr sample_response, sample_models, [(sample_debug_path, sample_debug_image)])"
proof -
  have i: "initialize_models sample_env sample_models = (Inr (), sample_models)"
    by (rule initialize_models_loaded) (simp_all add: sample_models_def)
  have c: "truthy (content_type sample_file)"
    "take 6 (case content_type sample_file of None \<Rightarrow> [] | Some ct \<Rightarrow> ct) = py_str ''image/''"
    by (simp_all add: sample_file_def py_str_def)
  have s: "save_upload sample_env (content sample_file) = Inr (py_str ''/tmp/tmpab.jpg'')"
    by (simp add: sample_env_def)
  show ?thesis
    unfolding detect_text_loaded[OF i c s] sample_run_ocr by simp
qed

lemma sample2_extract0:
  "extract_line sample_env2 sample_reader sample_img sample_blk 0 = Inr [12355, 80, 1]"
  by (simp add: extract_line_def line_pil_def sample_env2_def sample_env_def sample_blk_def
      sample_reader_def sample_img_def cvtColor_def fromarray_def lib_def font_size_or_20_def
      swap_rb_def)

lemma sample2_extract1:
  "extract_line sample_env2 sample_reader sample_img sample_blk (Suc 0) =
     Inl (Exception (py_str ''empty crop''))"
  by (simp add: extract_line_def line_pil_def sample_env2_def sample_env_def sample_blk_def
      sample_reader_def sample_img_def cvtColor_def fromarray_def lib_def font_size_or_20_def
      swap_rb_def)

lemma sample2_entries:
  "map (block_entry sample_env2 sample_reader sample_img) [sample_blk, sample_blk2] =
     textBlocks sample_response2"
  by (simp add: sample_bbox sample_bbox2 sample_lines upt_0_2 sample2_extract0 sample2_extract1
      py_int_def sample_response2_def)
     (simp add: sample_blk_def sample_blk2_def)

lemma sample2_debug_before:
  "debug_before sample_env2 sample_reader sample_img [sample_blk, sample_blk2] =
     debug sample_response2"
  by (simp add: enumerate_simps sample_bbox sample_bbox2 sample_lines upt_0_2 sample2_extract0
      sample2_extract1 py_int_def sample_response2_def)
     (simp add: sample_blk_def sample_blk2_def)

lemma sample2_facts:
  "text_detector sample_models2 = Some sample_detector"
  "manga_ocr sample_models2 = Some sample_reader"
  "imread sample_env2 (py_str ''/tmp/tmpab.jpg'') = Some sample_img"
  "sample_detector sample_img 1 True = Inr (sample_img, sample_img, [sample_blk, sample_blk2])"
  by (simp_all add: sample_models2_def sample_env2_def sample_env_def sample_detector_def)

lemma sample2_run_ocr:
  "run_ocr_detection sample_env2 sample_models2 (py_str ''/tmp/tmpab.jpg'') b =
     (Inr sample_response2, [])"
proof -
  have g: "\<not> GENERATE_DEBUG_IMAGES sample_env2" by (simp add: sample_env2_def)
  show ?thesis
    unfolding run_ocr_detection_loaded[OF sample2_facts]
    using g
    by (simp only: if_False sample2_entries sample2_debug_before fst_conv snd_conv)
       (simp add: sample_response2_def sample_img_def)
qed

lemma sample2_run:
  "detect_text sample_env2 sample_models2 sample_file None =
     (Inr sample_response2, sample_models2, [])"
proof -
  have i: "initialize_models sample_env2 sample_models2 = (Inr (), sample_models2)"
    by (rule initialize_models_loaded) (simp_all add: sample_models2_def)
  have c: "truthy (content_type sample_file)"
    "take 6 (case content_type sample_file of None \<Rightarrow> [] | Some ct \<Rightarrow> ct) = py_str ''image/''"
    by (simp_all add: sample_file_def py_str_def)
  have s: "save_upload sample_env2 (content sample_file) = Inr (py_str ''/tmp/tmpab.jpg'')"
    by (simp add: sample_env2_def sample_env_def)
  show ?thesis
    unfolding detect_text_loaded[OF i c s] sample2_run_ocr by simp
qed

section \<open>The response, block by block\<close>

lemma nth_block_entry:
  "i < length blks \<Longrightarrow>
   map (block_entry env m img) blks ! i = block_entry env m img (blks ! i)"
  by simp

lemma block_entry_fields:
  "res_bbox (block_entry env m img blk) =
     (case int_box (calculate_tight_bbox_from_lines blk) of (x1, y1, x2, y2) \<Rightarrow> [x1, y1, x2, y2])"
  "res_vertical (block_entry env m img blk) = vertical blk"
  "res_font_size (block_entry env m img blk) = font_size blk"
  "res_lines (block_entry env m img blk) = length (lines blk)"
  "res_confidence (block_entry env m img blk) = 1"
  "res_text_lines (block_entry env m img blk) = line_texts env m img blk"
  "res_text (block_entry env m img blk) = concat (line_texts env m img blk)"
  "res_width (block_entry env m img blk) =
     res_bbox (block_entry env m img blk) ! 2 - res_bbox (block_entry env m img blk) ! 0"
  "res_height (block_entry env m img blk) =
     res_bbox (block_entry env m img blk) ! 3 - res_bbox (block_entry env m img blk) ! 1"
  by (simp_all split: prod.splits)

lemma run_ocr_detection_blocks:
  assumes "run_ocr_detection env g p b = (Inr resp, fs)"
  shows "\<exists>td m img ma mr blks.
     text_detector g = Some td \<and> manga_ocr g = Some m \<and> imread env p = Some img \<and>
     td img 1 True = Inr (ma, mr, blks) \<and>
     textBlocks resp = map (block_entry env m img) blks \<and>
     imageSize resp = \<lparr>size_width = cols img, size_height = rows img\<rparr> \<and>
     success resp \<and>
     debug resp = snd (fst (debug_step env m img blks p b)) \<and>
     debugImagePath resp =
       (if truthy (fst (fst (debug_step env m img blks p b)))
        then fst (fst (debug_step env m img blks p b)) else None) \<and>
     fs = files (snd (debug_step env m img blks p b))"
proof -
  from run_ocr_detection_Inr[OF assms] obtain td m img ma mr blks where
    l: "text_detector g = Some td" "manga_ocr g = Some m" "imread env p = Some img"
      "td img 1 True = Inr (ma, mr, blks)" by blast
  from assms[unfolded run_ocr_detection_loaded[OF l]] have
    "resp = \<lparr>success = True,
          textBlocks = map (block_entry env m img) blks,
          imageSize = \<lparr>size_width = cols img, size_height = rows img\<rparr>,
          debug = snd (fst (debug_step env m img blks p b)),
          debugImagePath =
            (if truthy (fst (fst (debug_step env m img blks p b)))
             then fst (fst (debug_step env m img blks p b)) else None)\<rparr>"
    and "fs = files (snd (debug_step env m img blks p b))"
    by simp_all
  then have "textBlocks resp = map (block_entry env m img) blks \<and>
     imageSize resp = \<lparr>size_width = cols img, size_height = rows img\<rparr> \<and>
     success resp \<and>
     debug resp = snd (fst (debug_step env m img blks p b)) \<and>
     debugImagePath resp =
       (if truthy (fst (fst (debug_step env m img blks p b)))
        then fst (fst (debug_step env m img blks p b)) else None) \<and>
     fs = files (snd (debug_step env m img blks p b))"
    by simp
  with l show ?thesis by blast
qed

lemma has_points_iff:
  "(\<exists>line \<in> set (lines_array blk). line \<noteq> []) \<longleftrightarrow> concat (lines blk) \<noteq> []"
  by (auto simp: lines_array_def)

lemma tight_bbox_ordered:
  assumes "concat (lines blk) \<noteq> []"
    and "int_box (calculate_tight_bbox_from_lines blk) = (x1, y1, x2, y2)"
  shows "x1 \<le> x2 \<and> y1 \<le> y2"
proof -
  let ?P = "set (concat (lines blk))"
  have fin: "finite (fst ` ?P)" "finite (snd ` ?P)" by simp_all
  have "hd (concat (lines blk)) \<in> ?P" using assms(1) by (rule hd_in_set)
  then have a: "fst (hd (concat (lines blk))) \<in> fst ` ?P"
    and c: "snd (hd (concat (lines blk))) \<in> snd ` ?P"
    by (rule imageI)+
  have mx: "Min (fst ` ?P) \<le> Max (fst ` ?P)"
    using Min_le[OF fin(1) a] Max_ge[OF fin(1) a] by (rule order_trans)
  have my: "Min (snd ` ?P) \<le> Max (snd ` ?P)"
    using Min_le[OF fin(2) c] Max_ge[OF fin(2) c] by (rule order_trans)
  from assms(2) have "py_int (Min (fst ` ?P)) = x1" "py_int (Min (snd ` ?P)) = y1"
    "py_int (Max (fst ` ?P)) = x2" "py_int (Max (snd ` ?P)) = y2"
    unfolding tight_bbox_points[OF assms(1)] by (simp_all only: int_box.simps prod.inject)
  with py_int_mono[OF mx] py_int_mono[OF my] show ?thesis by (simp only:)
qed

lemma extract_line_fails:
  assumes "get_transformed_region env blk img j (font_size_or_20 blk) = Inl e \<or>
     (\<exists>pil. line_pil env img blk j = Inr pil \<and> m pil = Inl e)"
  shows "extract_line env m img blk j = Inl e"
  using assms by (auto simp: extract_line_def line_pil_def)

lemma line_note_in_notes:
  assumes "j < length (lines blk)" and "extract_line env m img blk j = Inl e"
  shows "FailedToExtractLine j (blk_idx + 1) (str_of e) \<in> set (line_notes env m img blk_idx blk)"
proof -
  have "j \<in> set [0..<length (lines blk)]" using assms(1) by simp
  then show ?thesis using assms(2) by (force simp del: set_upt)
qed

lemma line_note_in_debug_before:
  assumes "i < length blks" and "j < length (lines (blks ! i))"
    and "extract_line env m img (blks ! i) j = Inl e"
  shows "FailedToExtractLine j (i + 1) (str_of e) \<in> set (debug_before env m img blks)"
proof -
  have "(i, blks ! i) \<in> set (enumerate 0 blks)"
    using assms(1) by (simp add: in_set_enumerate_eq)
  moreover have "FailedToExtractLine j (i + 1) (str_of e) \<in>
      set (block_notes env m img (i, blks ! i))"
  proof -
    obtain x1 y1 x2 y2 where
      "int_box (calculate_tight_bbox_from_lines (blks ! i)) = (x1, y1, x2, y2)"
      by (cases "int_box (calculate_tight_bbox_from_lines (blks ! i))")
    with line_note_in_notes[OF assms(2,3), of i] show ?thesis
      by simp
  qed
  ultimately have "FailedToExtractLine j (i + 1) (str_of e) \<in>
      set (concat (map (block_notes env m img) (enumerate 0 blks)))"
    unfolding set_concat set_map by blast
  then show ?thesis by simp
qed

lemma generate_debug_info:
  "\<exists>entry. snd (fst (generate_debug_image_with_text env img blks trs path d w)) = d @ [entry]"
  by (simp add: generate_debug_image_with_text_def Let_def split: prod.splits sum.splits)

lemma debug_step_info:
  "set (debug_before env m img blks) \<subseteq> set (snd (fst (debug_step env m img blks p b)))"
proof (cases "GENERATE_DEBUG_IMAGES env")
  case True
  let ?G = "generate_debug_image_with_text env 0 blks
      (map (block_entry env m img) blks) (debug_base p b) (debug_before env m img blks)
      \<lparr>heap = [img], files = []\<rparr>"
  from True have eq: "debug_step env m img blks p b = ?G" by (simp only: if_True)
  obtain entry where e: "snd (fst ?G) = debug_before env m img blks @ [entry]"
    using generate_debug_info by blast
  show ?thesis unfolding eq e set_append by (rule Un_upper1)
next
  case False
  then show ?thesis by simp
qed

section \<open>Further lemmas\<close>

lemma line_pil_oriented:
  assumes "get_transformed_region env blk img j (font_size_or_20 blk) = Inr crop"
    and "(if vertical blk then rotate_90_clockwise env crop else Inr crop) = Inr pic"
    and "raises env (CvtColor pic) = None" and "raises env (Fromarray (swap_rb pic)) = None"
  shows "line_pil env img blk j = Inr (swap_rb pic)"
  using assms by (simp add: line_pil_def cvtColor_def fromarray_def lib_def)

lemma process_block_text_line:
  assumes "j < length (lines blk)"
  shows "res_text_lines (last (fst (process_block env m img (i, blk) acc))) ! j =
     (case extract_line env m img blk j of Inr t \<Rightarrow> t | Inl e \<Rightarrow> [])"
proof -
  obtain res d where acc: "acc = (res, d)" by (cases acc)
  obtain x1 y1 x2 y2 where
    b: "int_box (calculate_tight_bbox_from_lines blk) = (x1, y1, x2, y2)"
    by (cases "int_box (calculate_tight_bbox_from_lines blk)")
  show ?thesis
    unfolding acc process_block_eq using assms by (simp add: b)
qed

lemma detect_text_blocks:
  assumes "detect_text env g upl original_path = (Inr resp, g2, fs)"
  shows "\<exists>u td m tmp img ma mr blks.
     initialize_models env g = (Inr u, g2) \<and>
     text_detector g2 = Some td \<and> manga_ocr g2 = Some m \<and>
     save_upload env (content upl) = Inr tmp \<and> imread env tmp = Some img \<and>
     td img 1 True = Inr (ma, mr, blks) \<and>
     textBlocks resp = map (block_entry env m img) blks \<and>
     imageSize resp = \<lparr>size_width = cols img, size_height = rows img\<rparr> \<and>
     success resp \<and>
     debug resp =
       snd (fst (debug_step env m img blks tmp (Some (debug_base tmp original_path)))) \<and>
     debugImagePath resp =
       (if truthy (fst (fst (debug_step env m img blks tmp (Some (debug_base tmp original_path)))))
        then fst (fst (debug_step env m img blks tmp (Some (debug_base tmp original_path))))
        else None) \<and>
     fs = files (snd (debug_step env m img blks tmp (Some (debug_base tmp original_path))))"
proof -
  from detect_text_Inr[OF assms] obtain u tmp where
    i: "initialize_models env g = (Inr u, g2)"
    and s: "save_upload env (content upl) = Inr tmp"
    and r: "run_ocr_detection env g2 tmp (Some (debug_base tmp original_path)) = (Inr resp, fs)"
    by blast
  from run_ocr_detection_blocks[OF r] i s show ?thesis by blast
qed

lemma line_text_unfold:
  "(case extract_line env m img blk j of Inr t \<Rightarrow> t | Inl e \<Rightarrow> []) =
     (case get_transformed_region env blk img j (font_size_or_20 blk) of
        Inl e \<Rightarrow> []
      | Inr crop \<Rightarrow>
          (case (if vertical blk then rotate_90_clockwise env crop else Inr crop) of
             Inl e \<Rightarrow> []
           | Inr pic \<Rightarrow>
               if raises env (CvtColor pic) = None \<and> raises env (Fromarray (swap_rb pic)) = None
               then (case m (swap_rb pic) of Inl e \<Rightarrow> [] | Inr t \<Rightarrow> t)
               else []))"
  by (auto simp: extract_line_def line_pil_def cvtColor_def fromarray_def lib_def
      split: sum.splits option.splits)

lemma enumerate_zip_nth:
  assumes "length ys = length xs"
  shows "enumerate 0 (zip xs ys) = map (\<lambda>i. (i, xs ! i, ys ! i)) [0..<length xs]"
  using assms by (intro nth_equalityI) (simp_all add: nth_enumerate_eq)

lemma sample_generate_any:
  "fst (generate_debug_image_with_text sample_env 0 blks trs p d
          \<lparr>heap = [sample_img], files = []\<rparr>) =
     (Some sample_debug_path, d @ [DebugImageSaved sample_debug_path]) \<and>
   files (snd (generate_debug_image_with_text sample_env 0 blks trs p d
          \<lparr>heap = [sample_img], files = []\<rparr>)) =
     [(sample_debug_path, drew sample_img (debug_overlays sample_env sample_font blks trs))]"
proof -
  let ?w = "\<lparr>heap = [sample_img], files = []\<rparr>"
  have img: "0 < length (heap ?w)" by simp
  show ?thesis
  proof (rule generate_outcome[OF img, of sample_env p blks trs d], goal_cases)
    case (1 fnt w')
    from 1(1) have "fnt = sample_font" by (simp add: sample_load_font)
    with 1(4,5) show ?case by (simp add: sample_debug_path_of)
  next
    case (2 fnt w')
    then show ?case by (simp add: sample_exists)
  next
    case (3 fnt w')
    then show ?case by (simp add: sample_imwrite)
  next
    case (4 e w')
    then show ?case by (simp add: sample_no_raise sample_imwrite)
  qed
qed

lemma debug_base_idem:
  "debug_base tmp (Some (debug_base tmp original_path)) = debug_base tmp original_path"
  by (cases original_path) simp_all

lemma bind_imwrite_Inr:
  "bind_io c (imwrite_io env dp) w = (Inr b, w2) \<longleftrightarrow>
     (\<exists>a w1. c w = (Inr a, w1) \<and> imwrite env dp (heap w1 ! a) = Inr b \<and>
        w2 = (if b then w1\<lparr>files := files w1 @ [(dp, heap w1 ! a)]\<rparr> else w1))"
proof (cases "c w")
  case (Pair r w1)
  show ?thesis
  proof (cases r)
    case (Inl e)
    with Pair show ?thesis by (simp add: bind_io_def)
  next
    case (Inr a)
    with Pair show ?thesis
      by (cases "imwrite env dp (heap w1 ! a)") (auto simp: bind_io_def imwrite_io_def)
  qed
qed

lemma generate_path_iff:
  "fst (fst (generate_debug_image_with_text env img blks trs path d w)) \<noteq> None \<longleftrightarrow>
     (\<exists>a w1. annotate env img blks trs w = (Inr a, w1) \<and>
        imwrite env (debug_path_of env path) (heap w1 ! a) = Inr True) \<and>
     debug_path_exists env (debug_path_of env path)"
proof -
  let ?dp = "debug_path_of env path"
  let ?c = "bind_io (annotate env img blks trs) (imwrite_io env ?dp)"
  obtain r w2 where c: "?c w = (r, w2)" by (cases "?c w")
  have 1: "fst (fst (generate_debug_image_with_text env img blks trs path d w)) \<noteq> None \<longleftrightarrow>
      r = Inr True \<and> debug_path_exists env ?dp"
    by (simp add: generate_debug_image_with_text_def c Let_def split: sum.splits)
  have 2: "r = Inr True \<longleftrightarrow>
      (\<exists>a w1. annotate env img blks trs w = (Inr a, w1) \<and> imwrite env ?dp (heap w1 ! a) = Inr True)"
  proof
    assume "r = Inr True"
    with c have "?c w = (Inr True, w2)" by simp
    then show "\<exists>a w1. annotate env img blks trs w = (Inr a, w1) \<and>
        imwrite env ?dp (heap w1 ! a) = Inr True"
      unfolding bind_imwrite_Inr by blast
  next
    assume "\<exists>a w1. annotate env img blks trs w = (Inr a, w1) \<and>
        imwrite env ?dp (heap w1 ! a) = Inr True"
    then obtain a w1 where "annotate env img blks trs w = (Inr a, w1)"
      "imwrite env ?dp (heap w1 ! a) = Inr True" by blast
    then have "?c w = (Inr True, w1\<lparr>files := files w1 @ [(?dp, heap w1 ! a)]\<rparr>)"
      unfolding bind_imwrite_Inr by simp
    with c show "r = Inr True" by simp
  qed
  from 1 2 show ?thesis by simp
qed

lemma generate_path_value:
  assumes "fst (fst (generate_debug_image_with_text env img blks trs path d w)) \<noteq> None"
  shows "fst (fst (generate_debug_image_with_text env img blks trs path d w)) =
     Some (debug_path_of env path)"
  using assms
  by (simp add: generate_debug_image_with_text_def Let_def split: prod.splits sum.splits if_splits)

lemma sample_bbox3:
  "calculate_tight_bbox_from_lines sample_blk3 = (- 3 / 2, 5 / 2, 4294967297 / 2, 99 / 2)"
  by (simp add: calculate_tight_bbox_from_lines_def lines_array_def sample_blk3_def)

lemma sample_floors:
  "\<lceil>- (3 / 2) :: rat\<rceil> = - 1" "\<lfloor>5 / 2 :: rat\<rfloor> = 2" "\<lfloor>7 / 2 :: rat\<rfloor> = 3"
  "\<lfloor>99 / 2 :: rat\<rfloor> = 49" "\<lfloor>4294967297 / 2 :: rat\<rfloor> = 2147483648"
  by (rule ceiling_unique floor_unique; simp)+

lemma sample_casts:
  "py_int (- (3 / 2)) = - 1" "py_int (5 / 2) = 2" "py_int (7 / 2) = 3" "py_int (99 / 2) = 49"
  "py_int (4294967297 / 2) = 2147483648" "py_int 20 = 20"
  by (simp_all add: py_int_def sample_floors)

lemma sample_to_int32:
  "to_int32 sample_env (- (3 / 2)) = - 1" "to_int32 sample_env (5 / 2) = 2"
  "to_int32 sample_env (7 / 2) = 3" "to_int32 sample_env (99 / 2) = 49"
  "to_int32 sample_env (4294967297 / 2) = - 2147483648" "to_int32 sample_env 20 = 20"
  by (simp_all add: to_int32_def sample_casts) (simp add: sample_env_def)

lemma annotate_files:
  assumes "annotate env 0 blks trs \<lparr>heap = [img], files = []\<rparr> = (Inr a, w1)"
  shows "files w1 = []"
proof -
  let ?w = "\<lparr>heap = [img], files = []\<rparr>"
  have "holds (heap ?w) (files ?w) 0 0 (heap ?w ! 0) ?w" by (rule holds_initial) simp
  from tripleD_Inr[OF annotate_triple this assms]
  show ?thesis by (auto simp: holds_def ok_def)
qed

lemma annotate_no_raise:
  assumes "\<not> lib_raises env"
  shows "\<exists>a w1. annotate env 0 blks trs \<lparr>heap = [img], files = []\<rparr> = (Inr a, w1)"
proof -
  let ?w = "\<lparr>heap = [img], files = []\<rparr>"
  have h: "holds (heap ?w) (files ?w) 0 0 (heap ?w ! 0) ?w" by (rule holds_initial) simp
  obtain r w1 where c: "annotate env 0 blks trs ?w = (r, w1)" by (cases "annotate env 0 blks trs ?w")
  show ?thesis
  proof (cases r)
    case (Inl e)
    from tripleD_Inl[OF annotate_triple h c[unfolded Inl]] assms show ?thesis by simp
  next
    case (Inr a)
    with c show ?thesis by blast
  qed
qed

lemma generate_path_file:
  assumes "fst (fst (generate_debug_image_with_text env 0 blks trs path d
      \<lparr>heap = [img], files = []\<rparr>)) \<noteq> None"
  shows "\<exists>a w1. annotate env 0 blks trs \<lparr>heap = [img], files = []\<rparr> = (Inr a, w1) \<and>
     files (snd (generate_debug_image_with_text env 0 blks trs path d
       \<lparr>heap = [img], files = []\<rparr>)) = [(debug_path_of env path, heap w1 ! a)]"
proof -
  let ?w = "\<lparr>heap = [img], files = []\<rparr>"
  let ?dp = "debug_path_of env path"
  let ?c = "bind_io (annotate env 0 blks trs) (imwrite_io env ?dp)"
  obtain r w2 where c: "?c ?w = (r, w2)" by (cases "?c ?w")
  from assms have r: "r = Inr True"
    by (simp add: generate_debug_image_with_text_def c Let_def split: sum.splits if_splits)
  have s: "snd (generate_debug_image_with_text env 0 blks trs path d ?w) = w2"
    by (simp add: generate_debug_image_with_text_def c r Let_def)
  from c[unfolded r bind_imwrite_Inr]
  obtain a w1 where a: "annotate env 0 blks trs ?w = (Inr a, w1)"
    and w2: "w2 = w1\<lparr>files := files w1 @ [(?dp, heap w1 ! a)]\<rparr>"
    by auto
  from annotate_files[OF a] w2 have "files w2 = [(?dp, heap w1 ! a)]" by simp
  with a s show ?thesis by auto
qed

section \<open>Claims\<close>

text \<open>
  C1. For a text block with at least one line polygon that contains a point,
  \<open>calculate_tight_bbox_from_lines\<close> returns \<open>(x_min, y_min, x_max, y_max)\<close>, the minimum
  and maximum of the x- and y-coordinates over all points of all line polygons. This is
  the minimal axis-aligned rectangle enclosing the polygons: a rectangle encloses all
  their points exactly when it contains this one. \<open>run_ocr_detection\<close> reports this
  rectangle, truncated to integers, as the block's \<open>bbox\<close>, whatever \<open>blk.xyxy\<close> is.
\<close>

theorem tight_bbox_encloses_lines:
  fixes blk :: text_block
  defines "P \<equiv> \<Union> (set ` set (lines_array blk))"
  assumes points: "\<exists>line \<in> set (lines_array blk). line \<noteq> []"
  shows "calculate_tight_bbox_from_lines blk =
           (Min (fst ` P), Min (snd ` P), Max (fst ` P), Max (snd ` P)) \<and>
         (\<forall>x1 y1 x2 y2.
            (\<forall>(x, y) \<in> P. x1 \<le> x \<and> x \<le> x2 \<and> y1 \<le> y \<and> y \<le> y2) \<longleftrightarrow>
            (x1 \<le> Min (fst ` P) \<and> Max (fst ` P) \<le> x2 \<and>
             y1 \<le> Min (snd ` P) \<and> Max (snd ` P) \<le> y2)) \<and>
         (run_ocr_detection env g image_path base = (Inr resp, fs) \<longrightarrow>
          text_detector g = Some td \<longrightarrow> imread env image_path = Some img \<longrightarrow>
          td img 1 True = Inr (ma, mr, blks) \<longrightarrow> i < length blks \<longrightarrow> blks ! i = blk \<longrightarrow>
            res_bbox (textBlocks resp ! i) =
              [py_int (Min (fst ` P)), py_int (Min (snd ` P)),
               py_int (Max (fst ` P)), py_int (Max (snd ` P))])"
proof -
  have P: "P = set (concat (lines blk))"
    by (simp add: P_def lines_array_def)
  have ne: "concat (lines blk) \<noteq> []"
    by (rule iffD1[OF has_points_iff points])
  have tight: "calculate_tight_bbox_from_lines blk =
      (Min (fst ` P), Min (snd ` P), Max (fst ` P), Max (snd ` P))"
    unfolding P by (rule tight_bbox_points[OF ne])
  have fin: "finite (fst ` P)" "finite (snd ` P)" unfolding P by simp_all
  have nonempty: "fst ` P \<noteq> {}" "snd ` P \<noteq> {}" unfolding P using ne by simp_all
  have minimal: "(\<forall>(x, y) \<in> P. x1 \<le> x \<and> x \<le> x2 \<and> y1 \<le> y \<and> y \<le> y2) \<longleftrightarrow>
      (x1 \<le> Min (fst ` P) \<and> Max (fst ` P) \<le> x2 \<and>
       y1 \<le> Min (snd ` P) \<and> Max (snd ` P) \<le> y2)" for x1 y1 x2 y2
    unfolding Min_ge_iff[OF fin(1) nonempty(1)] Max_le_iff[OF fin(1) nonempty(1)]
      Min_ge_iff[OF fin(2) nonempty(2)] Max_le_iff[OF fin(2) nonempty(2)]
    by fastforce
  have used: "res_bbox (textBlocks resp ! i) =
      [py_int (Min (fst ` P)), py_int (Min (snd ` P)),
       py_int (Max (fst ` P)), py_int (Max (snd ` P))]"
    if run: "run_ocr_detection env g image_path base = (Inr resp, fs)"
      and td: "text_detector g = Some td" and img: "imread env image_path = Some img"
      and blks: "td img 1 True = Inr (ma, mr, blks)" and i: "i < length blks"
      and blk: "blks ! i = blk"
  proof -
    from run_ocr_detection_blocks[OF run] td img blks obtain m where
      "textBlocks resp = map (block_entry env m img) blks" by auto
    with i have "res_bbox (textBlocks resp ! i) = res_bbox (block_entry env m img (blks ! i))"
      by (simp only: nth_block_entry)
    then show ?thesis
      unfolding block_entry_fields(1) blk tight by simp
  qed
  from tight minimal used show ?thesis by blast
qed

theorem tight_bbox_encloses_lines_witness:
  "(\<exists>line \<in> set (lines_array sample_blk). line \<noteq> []) \<and>
   run_ocr_detection sample_env sample_models (py_str ''/tmp/tmpab.jpg'') None =
     (Inr sample_response, [(sample_debug_path, sample_debug_image)]) \<and>
   calculate_tight_bbox_from_lines sample_blk = (10, 20, 35, 60) \<and>
   xyxy sample_blk = (8, 15, 40, 65) \<and>
   Min (fst ` \<Union> (set ` set (lines_array sample_blk))) = 10 \<and>
   Min (snd ` \<Union> (set ` set (lines_array sample_blk))) = 20 \<and>
   Max (fst ` \<Union> (set ` set (lines_array sample_blk))) = 35 \<and>
   Max (snd ` \<Union> (set ` set (lines_array sample_blk))) = 60 \<and>
   res_bbox (textBlocks sample_response ! 0) = [10, 20, 35, 60]"
proof -
  have points: "\<exists>line \<in> set (lines_array sample_blk). line \<noteq> []"
    by (simp add: lines_array_def sample_blk_def)
  have l: "text_detector sample_models = Some sample_detector"
    "imread sample_env (py_str ''/tmp/tmpab.jpg'') = Some sample_img"
    "sample_detector sample_img 1 True = Inr (sample_img, sample_img, [sample_blk, sample_blk2])"
    "0 < length [sample_blk, sample_blk2]" "[sample_blk, sample_blk2] ! 0 = sample_blk"
    by (simp_all add: sample_models_def sample_env_def sample_detector_def)
  note t = tight_bbox_encloses_lines[OF points, of sample_env sample_models
      "py_str ''/tmp/tmpab.jpg''" None sample_response
      "[(sample_debug_path, sample_debug_image)]" sample_detector sample_img sample_img
      sample_img "[sample_blk, sample_blk2]" 0]
  from t have eq: "calculate_tight_bbox_from_lines sample_blk =
     (Min (fst ` \<Union> (set ` set (lines_array sample_blk))),
      Min (snd ` \<Union> (set ` set (lines_array sample_blk))),
      Max (fst ` \<Union> (set ` set (lines_array sample_blk))),
      Max (snd ` \<Union> (set ` set (lines_array sample_blk))))"
    by (rule conjunct1)
  from eq[unfolded sample_bbox] have m:
    "Min (fst ` \<Union> (set ` set (lines_array sample_blk))) = 10"
    "Min (snd ` \<Union> (set ` set (lines_array sample_blk))) = 20"
    "Max (fst ` \<Union> (set ` set (lines_array sample_blk))) = 35"
    "Max (snd ` \<Union> (set ` set (lines_array sample_blk))) = 60"
    by (simp_all only: prod.inject)
  from t sample_run_ocr[of None] l have
    "res_bbox (textBlocks sample_response ! 0) =
      [py_int (Min (fst ` \<Union> (set ` set (lines_array sample_blk)))),
       py_int (Min (snd ` \<Union> (set ` set (lines_array sample_blk)))),
       py_int (Max (fst ` \<Union> (set ` set (lines_array sample_blk)))),
       py_int (Max (snd ` \<Union> (set ` set (lines_array sample_blk))))]"
    by blast
  then have b: "res_bbox (textBlocks sample_response ! 0) = [10, 20, 35, 60]"
    unfolding m by (simp add: py_int_def)
  have x: "xyxy sample_blk = (8, 15, 40, 65)" by (simp add: sample_blk_def)
  from points sample_run_ocr[of None] sample_bbox x m b show ?thesis by (intro conjI)
qed

text \<open>
  C2. For every detected text block, \<open>run_ocr_detection\<close> processes the lines one at a
  time in the order of their index. The block's \<open>"text_lines"\<close> is the list, in that
  order, of what each line yields: the line region is cropped, rotated when the block is
  vertical, converted, and given to the OCR model, whose output is the entry (the empty
  string when any of these steps raises). \<open>"text"\<close> is the concatenation of the entries
  with no separator, and \<open>"lines"\<close> is the number of lines of the block.
\<close>

theorem lines_processed_in_order:
  assumes run: "run_ocr_detection env g image_path base = (Inr resp, fs)"
    and td: "text_detector g = Some td" and m: "manga_ocr g = Some m"
    and img: "imread env image_path = Some img"
    and blks: "td img 1 True = Inr (ma, mr, blks)"
    and i: "i < length blks"
  shows "res_text_lines (textBlocks resp ! i) =
           map (\<lambda>j.
                  case get_transformed_region env (blks ! i) img j (font_size_or_20 (blks ! i)) of
                    Inl e \<Rightarrow> []
                  | Inr crop \<Rightarrow>
                      (case (if vertical (blks ! i) then rotate_90_clockwise env crop
                             else Inr crop) of
                         Inl e \<Rightarrow> []
                       | Inr pic \<Rightarrow>
                           if raises env (CvtColor pic) = None \<and>
                              raises env (Fromarray (swap_rb pic)) = None
                           then (case m (swap_rb pic) of Inl e \<Rightarrow> [] | Inr t \<Rightarrow> t)
                           else []))
             [0..<length (lines (blks ! i))] \<and>
         res_text (textBlocks resp ! i) = concat (res_text_lines (textBlocks resp ! i)) \<and>
         res_lines (textBlocks resp ! i) = length (lines (blks ! i)) \<and>
         length (res_text_lines (textBlocks resp ! i)) = length (lines (blks ! i)) \<and>
         length (textBlocks resp) = length blks"
proof -
  from run_ocr_detection_blocks[OF run] td m img blks
  have tb: "textBlocks resp = map (block_entry env m img) blks" by auto
  with i have e: "textBlocks resp ! i = block_entry env m img (blks ! i)"
    by (simp only: nth_block_entry)
  have len: "length (textBlocks resp) = length blks" unfolding tb by simp
  have tl: "res_text_lines (textBlocks resp ! i) = line_texts env m img (blks ! i)"
    unfolding e block_entry_fields ..
  have tx: "res_text (textBlocks resp ! i) = concat (res_text_lines (textBlocks resp ! i))"
    unfolding e block_entry_fields ..
  have rl: "res_lines (textBlocks resp ! i) = length (lines (blks ! i))"
    unfolding e block_entry_fields ..
  have ll: "length (res_text_lines (textBlocks resp ! i)) = length (lines (blks ! i))"
    unfolding tl by simp
  from tl[unfolded line_text_unfold] tx rl ll len show ?thesis by (intro conjI)
qed

theorem lines_processed_in_order_witness:
  "run_ocr_detection sample_env2 sample_models2 (py_str ''/tmp/tmpab.jpg'') None =
     (Inr sample_response2, []) \<and>
   text_detector sample_models2 = Some sample_detector \<and>
   manga_ocr sample_models2 = Some sample_reader \<and>
   imread sample_env2 (py_str ''/tmp/tmpab.jpg'') = Some sample_img \<and>
   sample_detector sample_img 1 True = Inr (sample_img, sample_img, [sample_blk, sample_blk2]) \<and>
   map (\<lambda>j.
          case get_transformed_region sample_env2 sample_blk sample_img j
                 (font_size_or_20 sample_blk) of
            Inl e \<Rightarrow> []
          | Inr crop \<Rightarrow>
              (case (if vertical sample_blk then rotate_90_clockwise sample_env2 crop
                     else Inr crop) of
                 Inl e \<Rightarrow> []
               | Inr pic \<Rightarrow>
                   if raises sample_env2 (CvtColor pic) = None \<and>
                      raises sample_env2 (Fromarray (swap_rb pic)) = None
                   then (case sample_reader (swap_rb pic) of Inl e \<Rightarrow> [] | Inr t \<Rightarrow> t)
                   else []))
     [0..<length (lines sample_blk)] = [[12355, 80, 1], []] \<and>
   sample_reader \<lparr>rows = 80, cols = 100, channels = RGB, pixels = [12354], drawn = []\<rparr> =
     Inr [12355, 80, 1] \<and>
   res_text_lines (textBlocks sample_response2 ! 0) = [[12355, 80, 1], []] \<and>
   res_text (textBlocks sample_response2 ! 0) = concat [[12355, 80, 1], []] \<and>
   res_lines (textBlocks sample_response2 ! 0) = length (lines sample_blk) \<and>
   length (lines sample_blk) = 2 \<and>
   length (textBlocks sample_response2) = 2"
proof -
  have i: "0 < length [sample_blk, sample_blk2]" by simp
  note t = lines_processed_in_order[OF sample2_run_ocr[of None] sample2_facts i]
  have r: "res_text_lines (textBlocks sample_response2 ! 0) = [[12355, 80, 1], []]"
    by (simp add: sample_response2_def)
  from conjunct1[OF t] have a: "map (\<lambda>j.
          case get_transformed_region sample_env2 sample_blk sample_img j
                 (font_size_or_20 sample_blk) of
            Inl e \<Rightarrow> []
          | Inr crop \<Rightarrow>
              (case (if vertical sample_blk then rotate_90_clockwise sample_env2 crop
                     else Inr crop) of
                 Inl e \<Rightarrow> []
               | Inr pic \<Rightarrow>
                   if raises sample_env2 (CvtColor pic) = None \<and>
                      raises sample_env2 (Fromarray (swap_rb pic)) = None
                   then (case sample_reader (swap_rb pic) of Inl e \<Rightarrow> [] | Inr t \<Rightarrow> t)
                   else []))
     [0..<length (lines sample_blk)] = [[12355, 80, 1], []]"
    unfolding r nth_Cons_0 by (rule sym)
  have o: "sample_reader \<lparr>rows = 80, cols = 100, channels = RGB, pixels = [12354], drawn = []\<rparr> =
     Inr [12355, 80, 1]"
    by (simp add: sample_reader_def)
  from conjunct1[OF conjunct2[OF t]]
  have b: "res_text (textBlocks sample_response2 ! 0) = concat [[12355, 80, 1], []]"
    unfolding r .
  from conjunct1[OF conjunct2[OF conjunct2[OF t]]]
  have c: "res_lines (textBlocks sample_response2 ! 0) = length (lines sample_blk)"
    unfolding nth_Cons_0 .
  from conjunct2[OF conjunct2[OF conjunct2[OF conjunct2[OF t]]]]
  have d: "length (textBlocks sample_response2) = 2" by simp
  from sample2_run_ocr[of None] sample2_facts a o r b c sample_lines(1) d
  show ?thesis by (intro conjI)
qed

text \<open>
  C3. For a line of a vertical block the crop is rotated by 90 degrees clockwise, and
  the rotated picture (converted to RGB) is what the OCR model receives; for a line of a
  block that is not vertical the crop itself (converted to RGB) is what it receives. The
  OCR output on that picture is the line's entry of \<open>"text_lines"\<close>.
\<close>

theorem vertical_lines_rotated:
  assumes crop: "get_transformed_region env blk img j (font_size_or_20 blk) = Inr crop"
    and j: "j < length (lines blk)"
  shows "(vertical blk \<longrightarrow> rotate_90_clockwise env crop = Inr rot \<longrightarrow>
          raises env (CvtColor rot) = None \<longrightarrow> raises env (Fromarray (swap_rb rot)) = None \<longrightarrow>
            line_pil env img blk j = Inr (swap_rb rot) \<and>
            extract_line env m img blk j = m (swap_rb rot) \<and>
            res_text_lines (last (fst (process_block env m img (i, blk) acc))) ! j =
              (case m (swap_rb rot) of Inr t \<Rightarrow> t | Inl e \<Rightarrow> [])) \<and>
         (\<not> vertical blk \<longrightarrow>
          raises env (CvtColor crop) = None \<longrightarrow> raises env (Fromarray (swap_rb crop)) = None \<longrightarrow>
            line_pil env img blk j = Inr (swap_rb crop) \<and>
            extract_line env m img blk j = m (swap_rb crop) \<and>
            res_text_lines (last (fst (process_block env m img (i, blk) acc))) ! j =
              (case m (swap_rb crop) of Inr t \<Rightarrow> t | Inl e \<Rightarrow> []))"
proof -
  have v: "line_pil env img blk j = Inr (swap_rb rot) \<and>
      extract_line env m img blk j = m (swap_rb rot) \<and>
      res_text_lines (last (fst (process_block env m img (i, blk) acc))) ! j =
        (case m (swap_rb rot) of Inr t \<Rightarrow> t | Inl e \<Rightarrow> [])"
    if "vertical blk" "rotate_90_clockwise env crop = Inr rot"
      "raises env (CvtColor rot) = None" "raises env (Fromarray (swap_rb rot)) = None"
  proof -
    from that have "(if vertical blk then rotate_90_clockwise env crop else Inr crop) = Inr rot"
      by simp
    from line_pil_oriented[OF crop this that(3,4)]
    have p: "line_pil env img blk j = Inr (swap_rb rot)" .
    then have e: "extract_line env m img blk j = m (swap_rb rot)"
      by (simp add: extract_line_def)
    from p e process_block_text_line[OF j, of env m img i acc] show ?thesis by simp
  qed
  have h: "line_pil env img blk j = Inr (swap_rb crop) \<and>
      extract_line env m img blk j = m (swap_rb crop) \<and>
      res_text_lines (last (fst (process_block env m img (i, blk) acc))) ! j =
        (case m (swap_rb crop) of Inr t \<Rightarrow> t | Inl e \<Rightarrow> [])"
    if "\<not> vertical blk"
      "raises env (CvtColor crop) = None" "raises env (Fromarray (swap_rb crop)) = None"
  proof -
    from that have "(if vertical blk then rotate_90_clockwise env crop else Inr crop) = Inr crop"
      by simp
    from line_pil_oriented[OF crop this that(2,3)]
    have p: "line_pil env img blk j = Inr (swap_rb crop)" .
    then have e: "extract_line env m img blk j = m (swap_rb crop)"
      by (simp add: extract_line_def)
    from p e process_block_text_line[OF j, of env m img i acc] show ?thesis by simp
  qed
  from v h show ?thesis by blast
qed

theorem vertical_lines_rotated_witness:
  "vertical sample_blk \<and>
   get_transformed_region sample_env sample_blk sample_img 0 (font_size_or_20 sample_blk) =
     Inr (sample_img\<lparr>pixels := [12354]\<rparr>) \<and>
   rotate_90_clockwise sample_env (sample_img\<lparr>pixels := [12354]\<rparr>) =
     Inr \<lparr>rows = 80, cols = 100, channels = BGR, pixels = [12354], drawn = []\<rparr> \<and>
   line_pil sample_env sample_img sample_blk 0 =
     Inr \<lparr>rows = 80, cols = 100, channels = RGB, pixels = [12354], drawn = []\<rparr> \<and>
   extract_line sample_env sample_ocr sample_img sample_blk 0 = Inr [12354] \<and>
   res_text_lines (last (fst (process_block sample_env sample_ocr sample_img (0, sample_blk)
      ([], [])))) ! 0 = [12354] \<and>
   \<not> vertical (sample_blk\<lparr>vertical := False\<rparr>) \<and>
   line_pil sample_env sample_img (sample_blk\<lparr>vertical := False\<rparr>) 0 =
     Inr \<lparr>rows = 100, cols = 80, channels = RGB, pixels = [12354], drawn = []\<rparr> \<and>
   extract_line sample_env sample_ocr sample_img (sample_blk\<lparr>vertical := False\<rparr>) 0 =
     Inr [12354]"
proof -
  let ?crop = "sample_img\<lparr>pixels := [12354]\<rparr>"
  let ?rot = "\<lparr>rows = 80, cols = 100, channels = BGR, pixels = [12354], drawn = []\<rparr>"
  let ?h = "sample_blk\<lparr>vertical := False\<rparr>"
  have v: "vertical sample_blk" "\<not> vertical ?h" by (simp_all add: sample_blk_def)
  have c: "get_transformed_region sample_env sample_blk sample_img 0 (font_size_or_20 sample_blk) =
     Inr ?crop"
    "get_transformed_region sample_env ?h sample_img 0 (font_size_or_20 ?h) = Inr ?crop"
    by (simp_all add: sample_env_def)
  have j: "0 < length (lines sample_blk)" "0 < length (lines ?h)"
    by (simp_all add: sample_blk_def)
  have r: "rotate_90_clockwise sample_env ?crop = Inr ?rot"
    by (simp add: sample_env_def sample_img_def)
  have n: "raises sample_env x = None" for x by (simp add: sample_env_def)
  have s: "swap_rb ?rot = \<lparr>rows = 80, cols = 100, channels = RGB, pixels = [12354], drawn = []\<rparr>"
    "swap_rb ?crop = \<lparr>rows = 100, cols = 80, channels = RGB, pixels = [12354], drawn = []\<rparr>"
    by (simp_all add: swap_rb_def sample_img_def)
  have o: "sample_ocr (swap_rb ?rot) = Inr [12354]" "sample_ocr (swap_rb ?crop) = Inr [12354]"
    by (simp_all add: sample_ocr_def swap_rb_def)
  note t1 = vertical_lines_rotated[OF c(1) j(1), of ?rot sample_ocr 0 "([], [])"]
  note t2 = vertical_lines_rotated[OF c(2) j(2), of ?rot sample_ocr 0 "([], [])"]
  note a0 = conjunct1[OF t1, THEN mp, OF v(1), THEN mp, OF r, THEN mp, OF n, THEN mp, OF n]
  note b0 = conjunct2[OF t2, THEN mp, OF v(2), THEN mp, OF n, THEN mp, OF n]
  have a: "line_pil sample_env sample_img sample_blk 0 = Inr (swap_rb ?rot)"
    "extract_line sample_env sample_ocr sample_img sample_blk 0 = sample_ocr (swap_rb ?rot)"
    "res_text_lines (last (fst (process_block sample_env sample_ocr sample_img (0, sample_blk)
      ([], [])))) ! 0 = (case sample_ocr (swap_rb ?rot) of Inr t \<Rightarrow> t | Inl e \<Rightarrow> [])"
    using a0 by (rule conjunct1, rule conjunct2[THEN conjunct1], rule conjunct2[THEN conjunct2])
  have b: "line_pil sample_env sample_img ?h 0 = Inr (swap_rb ?crop)"
    "extract_line sample_env sample_ocr sample_img ?h 0 = sample_ocr (swap_rb ?crop)"
    using b0 by (rule conjunct1, rule conjunct2[THEN conjunct1])
  from a(3) have a3: "res_text_lines (last (fst (process_block sample_env sample_ocr sample_img
      (0, sample_blk) ([], [])))) ! 0 = [12354]"
    unfolding o by simp
  from v c(1) r a(1,2) a3 b show ?thesis
    unfolding s by (simp add: sample_ocr_def)
qed

text \<open>
  C4. For every successful \<open>/ocr/detect\<close> request the response holds exactly one entry of
  \<open>"textBlocks"\<close> per block the detector returned, in the detector's order; the entry
  carries the block's bounding box, its orientation as the boolean \<open>"vertical"\<close>, its
  \<open>"font_size"\<close> (absent exactly when the detector gives none), its number of lines and
  the transcribed text, which is the concatenation over the lines of the OCR model's
  output on each line's crop; and \<open>"imageSize"\<close> is the width and height of the input
  image.
\<close>

theorem detect_response_blocks:
  assumes "detect_text env g upl original_path = (Inr resp, g2, fs)"
  shows "\<exists>td m tmp img ma mr blks.
     text_detector g2 = Some td \<and> manga_ocr g2 = Some m \<and>
     save_upload env (content upl) = Inr tmp \<and> imread env tmp = Some img \<and>
     td img 1 True = Inr (ma, mr, blks) \<and>
     length (textBlocks resp) = length blks \<and>
     (\<forall>i < length blks.
        res_bbox (textBlocks resp ! i) =
          (case int_box (calculate_tight_bbox_from_lines (blks ! i)) of
             (x1, y1, x2, y2) \<Rightarrow> [x1, y1, x2, y2]) \<and>
        res_vertical (textBlocks resp ! i) = vertical (blks ! i) \<and>
        res_font_size (textBlocks resp ! i) = font_size (blks ! i) \<and>
        res_lines (textBlocks resp ! i) = length (lines (blks ! i)) \<and>
        res_text (textBlocks resp ! i) =
          concat
            (map (\<lambda>j.
                    case get_transformed_region env (blks ! i) img j
                           (font_size_or_20 (blks ! i)) of
                      Inl e \<Rightarrow> []
                    | Inr crop \<Rightarrow>
                        (case (if vertical (blks ! i) then rotate_90_clockwise env crop
                               else Inr crop) of
                           Inl e \<Rightarrow> []
                         | Inr pic \<Rightarrow>
                             if raises env (CvtColor pic) = None \<and>
                                raises env (Fromarray (swap_rb pic)) = None
                             then (case m (swap_rb pic) of Inl e \<Rightarrow> [] | Inr t \<Rightarrow> t)
                             else []))
               [0..<length (lines (blks ! i))])) \<and>
     imageSize resp = \<lparr>size_width = cols img, size_height = rows img\<rparr>"
proof -
  from detect_text_blocks[OF assms] obtain td m tmp img ma mr blks where
    l: "text_detector g2 = Some td" "manga_ocr g2 = Some m"
      "save_upload env (content upl) = Inr tmp" "imread env tmp = Some img"
      "td img 1 True = Inr (ma, mr, blks)"
    and tb: "textBlocks resp = map (block_entry env m img) blks"
    and sz: "imageSize resp = \<lparr>size_width = cols img, size_height = rows img\<rparr>"
    by blast
  have len: "length (textBlocks resp) = length blks" unfolding tb by simp
  have each: "res_bbox (textBlocks resp ! i) =
          (case int_box (calculate_tight_bbox_from_lines (blks ! i)) of
             (x1, y1, x2, y2) \<Rightarrow> [x1, y1, x2, y2]) \<and>
        res_vertical (textBlocks resp ! i) = vertical (blks ! i) \<and>
        res_font_size (textBlocks resp ! i) = font_size (blks ! i) \<and>
        res_lines (textBlocks resp ! i) = length (lines (blks ! i)) \<and>
        res_text (textBlocks resp ! i) =
          concat
            (map (\<lambda>j.
                    case get_transformed_region env (blks ! i) img j
                           (font_size_or_20 (blks ! i)) of
                      Inl e \<Rightarrow> []
                    | Inr crop \<Rightarrow>
                        (case (if vertical (blks ! i) then rotate_90_clockwise env crop
                               else Inr crop) of
                           Inl e \<Rightarrow> []
                         | Inr pic \<Rightarrow>
                             if raises env (CvtColor pic) = None \<and>
                                raises env (Fromarray (swap_rb pic)) = None
                             then (case m (swap_rb pic) of Inl e \<Rightarrow> [] | Inr t \<Rightarrow> t)
                             else []))
               [0..<length (lines (blks ! i))])" if "i < length blks" for i
  proof -
    from that have e: "textBlocks resp ! i = block_entry env m img (blks ! i)"
      unfolding tb by (simp only: nth_block_entry)
    have "res_bbox (textBlocks resp ! i) =
          (case int_box (calculate_tight_bbox_from_lines (blks ! i)) of
             (x1, y1, x2, y2) \<Rightarrow> [x1, y1, x2, y2]) \<and>
        res_vertical (textBlocks resp ! i) = vertical (blks ! i) \<and>
        res_font_size (textBlocks resp ! i) = font_size (blks ! i) \<and>
        res_lines (textBlocks resp ! i) = length (lines (blks ! i)) \<and>
        res_text (textBlocks resp ! i) = concat (line_texts env m img (blks ! i))"
      unfolding e block_entry_fields by simp
    then show ?thesis unfolding line_text_unfold .
  qed
  from l len each sz show ?thesis by blast
qed

theorem detect_response_blocks_witness:
  "detect_text sample_env2 sample_models2 sample_file None =
     (Inr sample_response2, sample_models2, []) \<and>
   (\<exists>td m tmp img ma mr blks.
     text_detector sample_models2 = Some td \<and> manga_ocr sample_models2 = Some m \<and>
     save_upload sample_env2 (content sample_file) = Inr tmp \<and>
     imread sample_env2 tmp = Some img \<and>
     td img 1 True = Inr (ma, mr, blks) \<and>
     length (textBlocks sample_response2) = length blks \<and>
     (\<forall>i < length blks.
        res_bbox (textBlocks sample_response2 ! i) =
          (case int_box (calculate_tight_bbox_from_lines (blks ! i)) of
             (x1, y1, x2, y2) \<Rightarrow> [x1, y1, x2, y2]) \<and>
        res_vertical (textBlocks sample_response2 ! i) = vertical (blks ! i) \<and>
        res_font_size (textBlocks sample_response2 ! i) = font_size (blks ! i) \<and>
        res_lines (textBlocks sample_response2 ! i) = length (lines (blks ! i)) \<and>
        res_text (textBlocks sample_response2 ! i) =
          concat
            (map (\<lambda>j.
                    case get_transformed_region sample_env2 (blks ! i) img j
                           (font_size_or_20 (blks ! i)) of
                      Inl e \<Rightarrow> []
                    | Inr crop \<Rightarrow>
                        (case (if vertical (blks ! i) then rotate_90_clockwise sample_env2 crop
                               else Inr crop) of
                           Inl e \<Rightarrow> []
                         | Inr pic \<Rightarrow>
                             if raises sample_env2 (CvtColor pic) = None \<and>
                                raises sample_env2 (Fromarray (swap_rb pic)) = None
                             then (case m (swap_rb pic) of Inl e \<Rightarrow> [] | Inr t \<Rightarrow> t)
                             else []))
               [0..<length (lines (blks ! i))])) \<and>
     imageSize sample_response2 = \<lparr>size_width = cols img, size_height = rows img\<rparr>) \<and>
   sample_detector sample_img 1 True = Inr (sample_img, sample_img, [sample_blk, sample_blk2]) \<and>
   sample_reader \<lparr>rows = 80, cols = 100, channels = RGB, pixels = [12354], drawn = []\<rparr> =
     Inr [12355, 80, 1] \<and>
   length (textBlocks sample_response2) = 2 \<and>
   res_bbox (textBlocks sample_response2 ! 0) = [10, 20, 35, 60] \<and>
   res_vertical (textBlocks sample_response2 ! 0) = True \<and>
   res_font_size (textBlocks sample_response2 ! 0) = Some 12 \<and>
   res_font_size (textBlocks sample_response2 ! 1) = None \<and>
   res_lines (textBlocks sample_response2 ! 0) = 2 \<and>
   res_text (textBlocks sample_response2 ! 0) = [12355, 80, 1] \<and>
   res_text (textBlocks sample_response2 ! 1) = [] \<and>
   imageSize sample_response2 = \<lparr>size_width = 80, size_height = 100\<rparr>"
proof -
  note t = detect_response_blocks[OF sample2_run]
  have c: "sample_detector sample_img 1 True = Inr (sample_img, sample_img, [sample_blk, sample_blk2])"
    "sample_reader \<lparr>rows = 80, cols = 100, channels = RGB, pixels = [12354], drawn = []\<rparr> =
       Inr [12355, 80, 1]"
    "length (textBlocks sample_response2) = 2"
    "res_bbox (textBlocks sample_response2 ! 0) = [10, 20, 35, 60]"
    "res_vertical (textBlocks sample_response2 ! 0) = True"
    "res_font_size (textBlocks sample_response2 ! 0) = Some 12"
    "res_font_size (textBlocks sample_response2 ! 1) = None"
    "res_lines (textBlocks sample_response2 ! 0) = 2"
    "res_text (textBlocks sample_response2 ! 0) = [12355, 80, 1]"
    "res_text (textBlocks sample_response2 ! 1) = []"
    "imageSize sample_response2 = \<lparr>size_width = 80, size_height = 100\<rparr>"
    by (simp_all add: sample_response2_def sample_detector_def sample_reader_def)
  from sample2_run t c show ?thesis by (intro conjI)
qed

text \<open>
  C5. The response of \<open>/ocr/detect\<close> carries the field \<open>debugImagePath\<close> exactly when the
  flag \<open>GENERATE_DEBUG_IMAGES\<close> is set, the debug image was generated (the annotation
  returned a picture: no step of it raised), \<open>cv2.imwrite\<close> returned true for that
  picture and the written path exists. In every case the request succeeds. When the field
  is present it is the debug path, and the one file written is the generated picture
  under that path; when the flag is off nothing is written and the field is absent.
  The annotation can only fail through a library call that raises. The path library is
  assumed never to render a path as the empty string.
\<close>

theorem debug_image_path_field:
  assumes init: "initialize_models env g = (Inr u, g2)"
    and ct: "truthy (content_type upl)"
      "take 6 (case content_type upl of None \<Rightarrow> [] | Some ct \<Rightarrow> ct) = py_str ''image/''"
    and save: "save_upload env (content upl) = Inr tmp"
    and td: "text_detector g2 = Some td" and m: "manga_ocr g2 = Some m"
    and img: "imread env tmp = Some img"
    and blks: "td img 1 True = Inr (ma, mr, blks)"
    and str: "\<forall>d n. path_join env d n \<noteq> []"
    and dp: "dp = debug_path_of env
               (case original_path of None \<Rightarrow> tmp | Some p \<Rightarrow> if p \<noteq> [] then p else tmp)"
  shows "\<exists>resp fs.
     detect_text env g upl original_path = (Inr resp, g2, fs) \<and>
     (debugImagePath resp \<noteq> None \<longleftrightarrow>
        GENERATE_DEBUG_IMAGES env \<and>
        (\<exists>a w1. annotate env 0 blks (textBlocks resp) \<lparr>heap = [img], files = []\<rparr> = (Inr a, w1) \<and>
                 imwrite env dp (heap w1 ! a) = Inr True) \<and>
        debug_path_exists env dp) \<and>
     (debugImagePath resp \<noteq> None \<longrightarrow>
        debugImagePath resp = Some dp \<and>
        (\<exists>a w1. annotate env 0 blks (textBlocks resp) \<lparr>heap = [img], files = []\<rparr> = (Inr a, w1) \<and>
                 fs = [(dp, heap w1 ! a)])) \<and>
     (\<not> GENERATE_DEBUG_IMAGES env \<longrightarrow> fs = [] \<and> debugImagePath resp = None) \<and>
     (\<not> lib_raises env \<longrightarrow>
        (\<exists>a w1. annotate env 0 blks (textBlocks resp) \<lparr>heap = [img], files = []\<rparr> = (Inr a, w1)))"
proof -
  let ?b = "Some (debug_base tmp original_path)"
  let ?w = "\<lparr>heap = [img], files = []\<rparr>"
  let ?trs = "map (block_entry env m img) blks"
  let ?D = "debug_step env m img blks tmp ?b"
  obtain resp fs where r: "run_ocr_detection env g2 tmp ?b = (Inr resp, fs)"
    using run_ocr_detection_loaded[OF td m img blks, where b = "?b"] by blast
  have d: "detect_text env g upl original_path = (Inr resp, g2, fs)"
    unfolding detect_text_loaded[OF init ct save] r by simp
  from run_ocr_detection_blocks[OF r] td m img blks
  have tb: "textBlocks resp = ?trs"
    and path: "debugImagePath resp = (if truthy (fst (fst ?D)) then fst (fst ?D) else None)"
    and fs: "fs = files (snd ?D)"
    by auto
  have dp': "dp = debug_path_of env (debug_base tmp ?b)"
    unfolding dp debug_base_idem ..
  have ne: "dp \<noteq> []" unfolding dp debug_path_of_def using str by simp
  have nr: "\<not> lib_raises env \<longrightarrow>
      (\<exists>a w1. annotate env 0 blks (textBlocks resp) ?w = (Inr a, w1))"
    using annotate_no_raise[of env blks "textBlocks resp" img] by blast
  show ?thesis
  proof (cases "GENERATE_DEBUG_IMAGES env")
    case False
    then have "?D = ((None, debug_before env m img blks), ?w)" by (simp only: if_False)
    with path fs have "debugImagePath resp = None" "fs = []" by simp_all
    with d False nr show ?thesis by auto
  next
    case True
    let ?G = "generate_debug_image_with_text env 0 blks ?trs (debug_base tmp ?b)
        (debug_before env m img blks) ?w"
    from True have D: "?D = ?G" by (simp only: if_True)
    have field: "debugImagePath resp \<noteq> None \<longleftrightarrow> fst (fst ?G) \<noteq> None"
    proof
      assume "debugImagePath resp \<noteq> None"
      then show "fst (fst ?G) \<noteq> None" unfolding path D by (auto split: if_splits)
    next
      assume a: "fst (fst ?G) \<noteq> None"
      from generate_path_value[OF a] have "fst (fst ?G) = Some dp" unfolding dp' .
      with ne show "debugImagePath resp \<noteq> None" unfolding path D by simp
    qed
    have val: "debugImagePath resp = Some dp \<and>
        (\<exists>a w1. annotate env 0 blks (textBlocks resp) ?w = (Inr a, w1) \<and> fs = [(dp, heap w1 ! a)])"
      if a: "debugImagePath resp \<noteq> None"
    proof -
      from a field have g: "fst (fst ?G) \<noteq> None" by simp
      from generate_path_value[OF g] have v: "fst (fst ?G) = Some dp" unfolding dp' .
      with ne have "debugImagePath resp = Some dp" unfolding path D by simp
      moreover from generate_path_file[OF g]
      have "\<exists>a w1. annotate env 0 blks (textBlocks resp) ?w = (Inr a, w1) \<and> fs = [(dp, heap w1 ! a)]"
        unfolding fs D dp' tb .
      ultimately show ?thesis by simp
    qed
    have iff: "debugImagePath resp \<noteq> None \<longleftrightarrow>
        GENERATE_DEBUG_IMAGES env \<and>
        (\<exists>a w1. annotate env 0 blks (textBlocks resp) ?w = (Inr a, w1) \<and>
                 imwrite env dp (heap w1 ! a) = Inr True) \<and>
        debug_path_exists env dp"
      unfolding field generate_path_iff tb dp' using True by simp
    from d iff val True nr show ?thesis by blast
  qed
qed


theorem debug_image_path_field_witness:
  "initialize_models sample_env sample_models = (Inr (), sample_models) \<and>
   truthy (content_type sample_file) \<and>
   take 6 (case content_type sample_file of None \<Rightarrow> [] | Some ct \<Rightarrow> ct) = py_str ''image/'' \<and>
   save_upload sample_env (content sample_file) = Inr (py_str ''/tmp/tmpab.jpg'') \<and>
   (\<forall>d n. path_join sample_env d n \<noteq> []) \<and>
   sample_debug_path = debug_path_of sample_env (py_str ''/tmp/tmpab.jpg'') \<and>
   detect_text sample_env sample_models sample_file None =
     (Inr sample_response, sample_models, [(sample_debug_path, sample_debug_image)]) \<and>
   GENERATE_DEBUG_IMAGES sample_env \<and>
   debugImagePath sample_response = Some sample_debug_path \<and>
   (\<exists>a w1. annotate sample_env 0 [sample_blk, sample_blk2] (textBlocks sample_response)
              \<lparr>heap = [sample_img], files = []\<rparr> = (Inr a, w1) \<and>
            imwrite sample_env sample_debug_path (heap w1 ! a) = Inr True) \<and>
   (\<exists>a w1. annotate sample_env 0 [sample_blk, sample_blk2] (textBlocks sample_response)
              \<lparr>heap = [sample_img], files = []\<rparr> = (Inr a, w1) \<and>
            heap w1 ! a = sample_debug_image) \<and>
   debug_path_exists sample_env sample_debug_path \<and>
   \<not> GENERATE_DEBUG_IMAGES sample_env2 \<and>
   (\<exists>resp fs.
      detect_text sample_env2 sample_models2 sample_file None = (Inr resp, sample_models2, fs) \<and>
      fs = [] \<and> debugImagePath resp = None) \<and>
   (\<exists>resp fs.
      detect_text (sample_env\<lparr>imwrite := \<lambda>p pic. Inr False\<rparr>) sample_models sample_file None =
        (Inr resp, sample_models, fs) \<and>
      debugImagePath resp = None) \<and>
   (\<exists>resp fs.
      detect_text
        (sample_env\<lparr>raises := \<lambda>c. case c of Copy p \<Rightarrow> Some (Exception (py_str ''no memory''))
                                         | _ \<Rightarrow> None\<rparr>)
        sample_models sample_file None = (Inr resp, sample_models, fs) \<and>
      debugImagePath resp = None)"
proof -
  let ?tmp = "py_str ''/tmp/tmpab.jpg''"
  let ?blks = "[sample_blk, sample_blk2]"
  let ?w = "\<lparr>heap = [sample_img], files = []\<rparr>"
  have init: "initialize_models sample_env sample_models = (Inr (), sample_models)"
    by (rule initialize_models_loaded) (simp_all add: sample_models_def)
  have ct: "truthy (content_type sample_file)"
    "take 6 (case content_type sample_file of None \<Rightarrow> [] | Some ct \<Rightarrow> ct) = py_str ''image/''"
    by (simp_all add: sample_file_def py_str_def)
  have save: "save_upload sample_env (content sample_file) = Inr ?tmp"
    by (simp add: sample_env_def)
  have l: "text_detector sample_models = Some sample_detector"
    "manga_ocr sample_models = Some sample_ocr"
    "imread sample_env ?tmp = Some sample_img"
    "sample_detector sample_img 1 True = Inr (sample_img, sample_img, ?blks)"
    by (simp_all add: sample_models_def sample_env_def sample_detector_def)
  have str: "\<forall>d n. path_join sample_env d n \<noteq> []"
    by (simp add: sample_env_def py_str_def)
  have dp: "sample_debug_path = debug_path_of sample_env
      (case None of None \<Rightarrow> ?tmp | Some p \<Rightarrow> if p \<noteq> [] then p else ?tmp)"
    by (simp add: sample_debug_path_of)
  have dp0: "sample_debug_path = debug_path_of sample_env ?tmp"
    by (simp add: sample_debug_path_of)
  have g: "GENERATE_DEBUG_IMAGES sample_env" by (simp add: sample_env_def)
  have v: "debugImagePath sample_response = Some sample_debug_path"
    by (simp add: sample_response_def)
  from debug_image_path_field[OF init ct save l str dp]
  obtain resp fs where
    d: "detect_text sample_env sample_models sample_file None = (Inr resp, sample_models, fs)"
    and iff: "debugImagePath resp \<noteq> None \<longleftrightarrow>
        GENERATE_DEBUG_IMAGES sample_env \<and>
        (\<exists>a w1. annotate sample_env 0 ?blks (textBlocks resp) ?w = (Inr a, w1) \<and>
                 imwrite sample_env sample_debug_path (heap w1 ! a) = Inr True) \<and>
        debug_path_exists sample_env sample_debug_path"
    and wr: "debugImagePath resp \<noteq> None \<longrightarrow>
        debugImagePath resp = Some sample_debug_path \<and>
        (\<exists>a w1. annotate sample_env 0 ?blks (textBlocks resp) ?w = (Inr a, w1) \<and>
                 fs = [(sample_debug_path, heap w1 ! a)])"
    by blast
  from d sample_run have resp: "resp = sample_response"
    and fs: "fs = [(sample_debug_path, sample_debug_image)]" by simp_all
  from iff[unfolded resp] v have first:
    "\<exists>a w1. annotate sample_env 0 ?blks (textBlocks sample_response) ?w = (Inr a, w1) \<and>
       imwrite sample_env sample_debug_path (heap w1 ! a) = Inr True"
    "debug_path_exists sample_env sample_debug_path"
    by simp_all
  from wr[unfolded resp fs] v have pic:
    "\<exists>a w1. annotate sample_env 0 ?blks (textBlocks sample_response) ?w = (Inr a, w1) \<and>
       heap w1 ! a = sample_debug_image"
    by auto
  \<comment> \<open>the flag is off\<close>
  have g2: "\<not> GENERATE_DEBUG_IMAGES sample_env2" by (simp add: sample_env2_def)
  have init2: "initialize_models sample_env2 sample_models2 = (Inr (), sample_models2)"
    by (rule initialize_models_loaded) (simp_all add: sample_models2_def)
  have save2: "save_upload sample_env2 (content sample_file) = Inr ?tmp"
    by (simp add: sample_env2_def sample_env_def)
  have str2: "\<forall>d n. path_join sample_env2 d n \<noteq> []"
    by (simp add: sample_env2_def sample_env_def py_str_def)
  from debug_image_path_field[OF init2 ct save2 sample2_facts str2 refl, of None] g2
  have second: "\<exists>resp fs.
      detect_text sample_env2 sample_models2 sample_file None = (Inr resp, sample_models2, fs) \<and>
      fs = [] \<and> debugImagePath resp = None"
    by blast
  \<comment> \<open>imwrite returns False\<close>
  let ?e3 = "sample_env\<lparr>imwrite := \<lambda>p pic. Inr False\<rparr>"
  have init3: "initialize_models ?e3 sample_models = (Inr (), sample_models)"
    by (rule initialize_models_loaded) (simp_all add: sample_models_def)
  have e3: "save_upload ?e3 (content sample_file) = Inr ?tmp"
    "imread ?e3 ?tmp = Some sample_img"
    "\<forall>d n. path_join ?e3 d n \<noteq> []"
    "imwrite ?e3 p pic \<noteq> Inr True" for p pic
    by (simp_all add: sample_env_def py_str_def)
  from debug_image_path_field[OF init3 ct e3(1) l(1,2) e3(2) l(4) e3(3) refl, of None]
  have third: "\<exists>resp fs.
      detect_text ?e3 sample_models sample_file None = (Inr resp, sample_models, fs) \<and>
      debugImagePath resp = None"
    by (elim exE conjE) (simp add: e3(4))
  \<comment> \<open>copying the input raises\<close>
  let ?e4 = "sample_env\<lparr>raises := \<lambda>c. case c of Copy p \<Rightarrow> Some (Exception (py_str ''no memory''))
                                         | _ \<Rightarrow> None\<rparr>"
  have init4: "initialize_models ?e4 sample_models = (Inr (), sample_models)"
    by (rule initialize_models_loaded) (simp_all add: sample_models_def)
  have e4: "save_upload ?e4 (content sample_file) = Inr ?tmp"
    "imread ?e4 ?tmp = Some sample_img"
    "\<forall>d n. path_join ?e4 d n \<noteq> []"
    by (simp_all add: sample_env_def py_str_def)
  have a4: "annotate ?e4 0 ?blks trs ?w \<noteq> (Inr a, w1)" for trs a w1
    by (simp add: annotate_def open_canvas_def bind_io_def new_from_def ndarray_copy_def lib_def)
  from debug_image_path_field[OF init4 ct e4(1) l(1,2) e4(2) l(4) e4(3) refl, of None]
  have fourth: "\<exists>resp fs.
      detect_text ?e4 sample_models sample_file None = (Inr resp, sample_models, fs) \<and>
      debugImagePath resp = None"
    by (elim exE conjE) (simp add: a4)
  from init ct save str dp0 sample_run g v first(1) pic first(2) g2 second third fourth
  show ?thesis by (intro conjI)
qed

text \<open>
  C6. The debug image is an annotated copy of the input image. Whatever
  \<open>generate_debug_image_with_text\<close> returns, every buffer that existed before the call,
  the input image among them, is unchanged afterwards. The picture it writes, when it
  writes one, is the input picture with these overlays added, block after block in the
  detector's order: for block \<open>i\<close> the rectangle of its tight bounding box, the label
  \<open>i + 1\<close>, the recognised text when it is not empty (cut to 30 characters followed by
  \<open>"..."\<close> when longer), and the outline of each of its line polygons. A returned path
  is the path of that written picture.
\<close>

theorem debug_image_is_annotated_copy:
  assumes img: "img < length (heap w)"
    and len: "length text_results = length blk_list"
    and gen: "generate_debug_image_with_text env img blk_list text_results path debug_info w =
        ((r, debug_info2), w2)"
  shows "take (length (heap w)) (heap w2) = heap w \<and>
         heap w2 ! img = heap w ! img \<and>
         (files w2 = files w \<or>
          (\<exists>fnt. load_font env = Inr fnt \<and>
             files w2 = files w @
               [(debug_path_of env path,
                 (heap w ! img)\<lparr>drawn := drawn (heap w ! img) @
                    concat (map (\<lambda>i. spec_block_overlays env fnt (i, blk_list ! i, text_results ! i))
                              [0..<length blk_list])\<rparr>)])) \<and>
         (r \<noteq> None \<longrightarrow> r = Some (debug_path_of env path) \<and> files w2 \<noteq> files w)"
proof -
  have ov: "debug_overlays env fnt blk_list text_results =
      concat (map (\<lambda>i. spec_block_overlays env fnt (i, blk_list ! i, text_results ! i))
                [0..<length blk_list])" for fnt
    unfolding enumerate_zip_nth[OF len] by (simp add: comp_def)
  have nth: "heap w2 ! img = heap w ! img" if "take (length (heap w)) (heap w2) = heap w"
  proof -
    have "take (length (heap w)) (heap w2) ! img = heap w2 ! img"
      using img by (rule nth_take)
    with that show ?thesis by simp
  qed
  show ?thesis
  proof (rule generate_outcome[OF img, of env path blk_list text_results debug_info], goal_cases)
    case (1 fnt w')
    from 1(4) gen have "r = Some (debug_path_of env path)" "w2 = w'" by simp_all
    with 1 nth show ?case unfolding ov by auto
  next
    case (2 fnt w')
    from 2(4) gen have "r = None" "w2 = w'" by simp_all
    with 2 nth show ?case unfolding ov by auto
  next
    case (3 fnt w')
    from 3(3) gen have "r = None" "w2 = w'" by simp_all
    with 3 nth show ?case by auto
  next
    case (4 e w')
    from 4(2) gen have "r = None" "w2 = w'" by simp_all
    with 4 nth show ?case by auto
  qed
qed

theorem debug_image_is_annotated_copy_witness:
  "0 < length (heap \<lparr>heap = [sample_img], files = []\<rparr>) \<and>
   length (textBlocks sample_response) = length [sample_blk, sample_blk2] \<and>
   fst (fst (generate_debug_image_with_text sample_env 0 [sample_blk, sample_blk2]
      (textBlocks sample_response) (py_str ''/tmp/tmpab.jpg'') []
      \<lparr>heap = [sample_img], files = []\<rparr>)) = Some sample_debug_path \<and>
   heap (snd (generate_debug_image_with_text sample_env 0 [sample_blk, sample_blk2]
      (textBlocks sample_response) (py_str ''/tmp/tmpab.jpg'') []
      \<lparr>heap = [sample_img], files = []\<rparr>)) ! 0 = sample_img \<and>
   take 1 (heap (snd (generate_debug_image_with_text sample_env 0 [sample_blk, sample_blk2]
      (textBlocks sample_response) (py_str ''/tmp/tmpab.jpg'') []
      \<lparr>heap = [sample_img], files = []\<rparr>))) = [sample_img] \<and>
   files (snd (generate_debug_image_with_text sample_env 0 [sample_blk, sample_blk2]
      (textBlocks sample_response) (py_str ''/tmp/tmpab.jpg'') []
      \<lparr>heap = [sample_img], files = []\<rparr>)) = [(sample_debug_path, sample_debug_image)] \<and>
   sample_debug_image =
     sample_img\<lparr>drawn :=
       concat (map (\<lambda>i. spec_block_overlays sample_env sample_font
                          (i, [sample_blk, sample_blk2] ! i, textBlocks sample_response ! i))
                 [0..<2])\<rparr> \<and>
   files (snd (generate_debug_image_with_text sample_env 0 [sample_blk2]
      [(textBlocks sample_response ! 1)\<lparr>res_text := replicate 31 12354\<rparr>]
      (py_str ''/tmp/tmpab.jpg'') [] \<lparr>heap = [sample_img], files = []\<rparr>)) =
     [(sample_debug_path,
       sample_img\<lparr>drawn :=
         [Rectangle (5, 6, 70, 80) (Some [0, 255, 0]) None 3,
          DrawText (5, 5) (py_str ''1'') [0, 255, 0] sample_font,
          Rectangle (3, 88, 799, 116) None (Some [255, 255, 255, 200]) 1,
          DrawText (5, 90) (replicate 30 12354 @ py_str ''...'') [255, 0, 0] sample_font]\<rparr>)] \<and>
   files (snd (generate_debug_image_with_text sample_env 0 [sample_blk3]
      [textBlocks sample_response ! 1]
      (py_str ''/tmp/tmpab.jpg'') [] \<lparr>heap = [sample_img], files = []\<rparr>)) =
     [(sample_debug_path,
       sample_img\<lparr>drawn :=
         [Rectangle (- 1, 2, 2147483648, 49) (Some [0, 255, 0]) None 3,
          DrawText (- 1, 5) (py_str ''1'') [0, 255, 0] sample_font,
          Polylines [[(- 1, 2), (- 2147483648, 3), (20, 49)]] True [255, 165, 0] 2]\<rparr>)]"
proof -
  let ?w = "\<lparr>heap = [sample_img], files = []\<rparr>"
  let ?G = "generate_debug_image_with_text sample_env 0 [sample_blk, sample_blk2]
      (textBlocks sample_response) (py_str ''/tmp/tmpab.jpg'') [] ?w"
  let ?long = "(textBlocks sample_response ! 1)\<lparr>res_text := replicate 31 12354\<rparr>"
  let ?H = "generate_debug_image_with_text sample_env 0 [sample_blk2] [?long]
      (py_str ''/tmp/tmpab.jpg'') [] ?w"
  have img: "0 < length (heap ?w)" by simp
  have len: "length (textBlocks sample_response) = length [sample_blk, sample_blk2]"
    by (simp add: sample_response_def)
  have gen: "?G = ((fst (fst ?G), snd (fst ?G)), snd ?G)" by simp
  note t = debug_image_is_annotated_copy[OF img len gen]
  have r: "fst (fst ?G) = Some sample_debug_path" by (simp add: sample_generate(1))
  from t have a: "take 1 (heap (snd ?G)) = [sample_img]"
    and b: "heap (snd ?G) ! 0 = sample_img" by simp_all
  have f: "files (snd ?G) = [(sample_debug_path, sample_debug_image)]"
    by (rule sample_generate(2))
  from t have "files (snd ?G) = files ?w \<or>
          (\<exists>fnt. load_font sample_env = Inr fnt \<and>
             files (snd ?G) = files ?w @
               [(debug_path_of sample_env (py_str ''/tmp/tmpab.jpg''),
                 (heap ?w ! 0)\<lparr>drawn := drawn (heap ?w ! 0) @
                    concat (map (\<lambda>i. spec_block_overlays sample_env fnt
                                       (i, [sample_blk, sample_blk2] ! i, textBlocks sample_response ! i))
                              [0..<length [sample_blk, sample_blk2]])\<rparr>)])"
    by (rule conjunct2[THEN conjunct2, THEN conjunct1])
  then have p: "sample_debug_image =
     sample_img\<lparr>drawn :=
       concat (map (\<lambda>i. spec_block_overlays sample_env sample_font
                          (i, [sample_blk, sample_blk2] ! i, textBlocks sample_response ! i))
                 [0..<2])\<rparr>"
    unfolding f by (auto simp: sample_load_font sample_img_def upt_0_2)
  have ov: "drew sample_img (debug_overlays sample_env sample_font [sample_blk2] [?long]) =
       sample_img\<lparr>drawn :=
         [Rectangle (5, 6, 70, 80) (Some [0, 255, 0]) None 3,
          DrawText (5, 5) (py_str ''1'') [0, 255, 0] sample_font,
          Rectangle (3, 88, 799, 116) None (Some [255, 255, 255, 200]) 1,
          DrawText (5, 90) (replicate 30 12354 @ py_str ''...'') [255, 0, 0] sample_font]\<rparr>"
    by (simp add: enumerate_simps spec_block_overlays_def spec_text_overlay_def sample_bbox2
        py_int_def sample_textbbox lines_array_def str_nat.simps sample_img_def py_str_def)
       (simp add: sample_blk2_def)
  have h: "files (snd ?H) =
     [(sample_debug_path,
       sample_img\<lparr>drawn :=
         [Rectangle (5, 6, 70, 80) (Some [0, 255, 0]) None 3,
          DrawText (5, 5) (py_str ''1'') [0, 255, 0] sample_font,
          Rectangle (3, 88, 799, 116) None (Some [255, 255, 255, 200]) 1,
          DrawText (5, 90) (replicate 30 12354 @ py_str ''...'') [255, 0, 0] sample_font]\<rparr>)]"
    using conjunct2[OF sample_generate_any[of "[sample_blk2]" "[?long]"
          "py_str ''/tmp/tmpab.jpg''" "[]"]]
    unfolding ov .
  let ?K = "generate_debug_image_with_text sample_env 0 [sample_blk3]
      [textBlocks sample_response ! 1] (py_str ''/tmp/tmpab.jpg'') [] ?w"
  have ov3: "drew sample_img (debug_overlays sample_env sample_font [sample_blk3]
         [textBlocks sample_response ! 1]) =
       sample_img\<lparr>drawn :=
         [Rectangle (- 1, 2, 2147483648, 49) (Some [0, 255, 0]) None 3,
          DrawText (- 1, 5) (py_str ''1'') [0, 255, 0] sample_font,
          Polylines [[(- 1, 2), (- 2147483648, 3), (20, 49)]] True [255, 165, 0] 2]\<rparr>"
    by (simp add: enumerate_simps spec_block_overlays_def spec_text_overlay_def sample_bbox3
        sample_casts sample_response_def lines_array_def astype_int32_def
        str_nat.simps sample_img_def py_str_def)
       (simp add: sample_blk3_def sample_to_int32)
  have k: "files (snd ?K) =
     [(sample_debug_path,
       sample_img\<lparr>drawn :=
         [Rectangle (- 1, 2, 2147483648, 49) (Some [0, 255, 0]) None 3,
          DrawText (- 1, 5) (py_str ''1'') [0, 255, 0] sample_font,
          Polylines [[(- 1, 2), (- 2147483648, 3), (20, 49)]] True [255, 165, 0] 2]\<rparr>)]"
    using conjunct2[OF sample_generate_any[of "[sample_blk3]" "[textBlocks sample_response ! 1]"
          "py_str ''/tmp/tmpab.jpg''" "[]"]]
    unfolding ov3 .
  from img len r b a f p h k show ?thesis by (intro conjI)
qed

text \<open>
  C7. \<open>initialize_models\<close> is guarded and idempotent. When both model slots are set it
  returns without touching them, for every environment, and so does the call at the start
  of a request; it changes a slot only when one of the two was unset; and after a
  successful call both slots are set, so every later call leaves them as they are.
\<close>

theorem initialize_models_guarded:
  "(text_detector g \<noteq> None \<and> manga_ocr g \<noteq> None \<longrightarrow>
      initialize_models env g = (Inr (), g) \<and>
      fst (snd (detect_text env g upl original_path)) = g) \<and>
   (snd (initialize_models env g) \<noteq> g \<longrightarrow> text_detector g = None \<or> manga_ocr g = None) \<and>
   (initialize_models env g = (Inr u, g2) \<longrightarrow>
      text_detector g2 \<noteq> None \<and> manga_ocr g2 \<noteq> None \<and>
      initialize_models env2 g2 = (Inr (), g2))"
  using initialize_models_loaded[of g env] initialize_models_changes[of env g]
    initialize_models_Inr[of env g u g2] initialize_models_loaded[of g2 env2]
    detect_text_models[of env g upl original_path]
  by auto

theorem initialize_models_guarded_witness:
  "text_detector sample_models \<noteq> None \<and> manga_ocr sample_models \<noteq> None \<and>
   initialize_models sample_env sample_models = (Inr (), sample_models) \<and>
   fst (snd (detect_text sample_env sample_models sample_file None)) = sample_models \<and>
   initialize_models sample_env \<lparr>text_detector = None, manga_ocr = None\<rparr> =
     (Inr (), sample_models) \<and>
   initialize_models (sample_env\<lparr>import_error := Some (Exception [])\<rparr>) sample_models =
     (Inr (), sample_models)"
proof -
  have loaded: "text_detector sample_models \<noteq> None \<and> manga_ocr sample_models \<noteq> None"
    by (simp add: sample_models_def)
  have first: "initialize_models sample_env \<lparr>text_detector = None, manga_ocr = None\<rparr> =
      (Inr (), sample_models)"
    by (simp add: initialize_models_def sample_env_def sample_models_def)
  note t1 = initialize_models_guarded[where g = sample_models and env = sample_env
      and upl = sample_file and original_path = None]
  note t2 = initialize_models_guarded[where g = "\<lparr>text_detector = None, manga_ocr = None\<rparr>"
      and env = sample_env and u = "()" and ?g2.0 = sample_models
      and ?env2.0 = "sample_env\<lparr>import_error := Some (Exception [])\<rparr>"]
  from t1 loaded have a: "initialize_models sample_env sample_models = (Inr (), sample_models) \<and>
      fst (snd (detect_text sample_env sample_models sample_file None)) = sample_models"
    by blast
  from t2 first have b:
    "initialize_models (sample_env\<lparr>import_error := Some (Exception [])\<rparr>) sample_models =
     (Inr (), sample_models)"
    by blast
  from loaded a first b show ?thesis by blast
qed

text \<open>
  C8. If a text block has no line polygons, or its line polygons contain no points,
  \<open>calculate_tight_bbox_from_lines\<close> returns the detector's block-level box
  \<open>blk.xyxy\<close>: the function is total, and it returns that box as it is.
\<close>

theorem tight_bbox_falls_back:
  "lines_array blk = [] \<or> (\<forall>line \<in> set (lines_array blk). line = []) \<Longrightarrow>
   calculate_tight_bbox_from_lines blk = xyxy blk"
  by (rule tight_bbox_fallback) (auto simp: lines_array_def)

theorem tight_bbox_falls_back_witness:
  "lines_array sample_blk2 = [] \<and>
   calculate_tight_bbox_from_lines sample_blk2 = (5, 6, 70, 80) \<and>
   calculate_tight_bbox_from_lines
     \<lparr>xyxy = (1, 2, 3, 4), lines = [[], []], vertical = True, font_size = None\<rparr> = (1, 2, 3, 4)"
  using tight_bbox_falls_back[of sample_blk2]
    tight_bbox_falls_back[of
      "\<lparr>xyxy = (1, 2, 3, 4), lines = [[], []], vertical = True, font_size = None\<rparr>"]
  by (simp add: lines_array_def sample_blk2_def)

text \<open>
  C9. If cropping or OCR raises for one line of a block, the request still succeeds:
  that line contributes the empty string to the block's \<open>"text_lines"\<close> (so nothing to
  \<open>"text"\<close>), a note naming the line and the block is in the debug information, every
  other line of the block has the entry it would have had, and every block has its entry.
\<close>

theorem line_failure_tolerated:
  assumes init: "initialize_models env g = (Inr u, g2)"
    and ct: "truthy (content_type upl)"
      "take 6 (case content_type upl of None \<Rightarrow> [] | Some ct \<Rightarrow> ct) = py_str ''image/''"
    and save: "save_upload env (content upl) = Inr tmp"
    and td: "text_detector g2 = Some td" and m: "manga_ocr g2 = Some m"
    and img: "imread env tmp = Some img"
    and blks: "td img 1 True = Inr (ma, mr, blks)"
    and i: "i < length blks" and j: "j < length (lines (blks ! i))"
    and fail: "get_transformed_region env (blks ! i) img j (font_size_or_20 (blks ! i)) = Inl e \<or>
       (\<exists>pil. line_pil env img (blks ! i) j = Inr pil \<and> m pil = Inl e)"
  shows "\<exists>resp fs.
     detect_text env g upl original_path = (Inr resp, g2, fs) \<and> success resp \<and>
     length (textBlocks resp) = length blks \<and>
     length (res_text_lines (textBlocks resp ! i)) = length (lines (blks ! i)) \<and>
     res_text_lines (textBlocks resp ! i) ! j = [] \<and>
     res_text (textBlocks resp ! i) = concat (res_text_lines (textBlocks resp ! i)) \<and>
     FailedToExtractLine j (i + 1) (str_of e) \<in> set (debug resp) \<and>
     (\<forall>k < length (lines (blks ! i)).
        res_text_lines (textBlocks resp ! i) ! k =
          (case extract_line env m img (blks ! i) k of Inr t \<Rightarrow> t | Inl e \<Rightarrow> []))"
proof -
  let ?b = "Some (debug_base tmp original_path)"
  obtain resp fs where r: "run_ocr_detection env g2 tmp ?b = (Inr resp, fs)"
    using run_ocr_detection_loaded[OF td m img blks, where b = "?b"] by blast
  have d: "detect_text env g upl original_path = (Inr resp, g2, fs)"
    unfolding detect_text_loaded[OF init ct save] r by simp
  from run_ocr_detection_blocks[OF r] td m img blks
  have tb: "textBlocks resp = map (block_entry env m img) blks"
    and ok: "success resp"
    and dbg: "debug resp = snd (fst (debug_step env m img blks tmp ?b))"
    by auto
  have len: "length (textBlocks resp) = length blks" unfolding tb by simp
  from i have en: "textBlocks resp ! i = block_entry env m img (blks ! i)"
    unfolding tb by (simp only: nth_block_entry)
  have tl: "res_text_lines (textBlocks resp ! i) = line_texts env m img (blks ! i)"
    unfolding en block_entry_fields ..
  have tx: "res_text (textBlocks resp ! i) = concat (res_text_lines (textBlocks resp ! i))"
    unfolding en block_entry_fields ..
  have ex: "extract_line env m img (blks ! i) j = Inl e"
    by (rule extract_line_fails[OF fail])
  have each: "res_text_lines (textBlocks resp ! i) ! k =
      (case extract_line env m img (blks ! i) k of Inr t \<Rightarrow> t | Inl e \<Rightarrow> [])"
    if "k < length (lines (blks ! i))" for k
    unfolding tl using that by simp
  from each[OF j] ex have empty: "res_text_lines (textBlocks resp ! i) ! j = []" by simp
  have ll: "length (res_text_lines (textBlocks resp ! i)) = length (lines (blks ! i))"
    unfolding tl by simp
  have noted: "FailedToExtractLine j (i + 1) (str_of e) \<in> set (debug resp)"
    unfolding dbg
    by (rule subsetD[OF debug_step_info line_note_in_debug_before[OF i j ex]])
  from d ok len ll empty tx noted each show ?thesis by blast
qed


theorem line_failure_tolerated_witness:
  "initialize_models sample_env sample_models = (Inr (), sample_models) \<and>
   truthy (content_type sample_file) \<and>
   take 6 (case content_type sample_file of None \<Rightarrow> [] | Some ct \<Rightarrow> ct) = py_str ''image/'' \<and>
   save_upload sample_env (content sample_file) = Inr (py_str ''/tmp/tmpab.jpg'') \<and>
   sample_detector sample_img 1 True = Inr (sample_img, sample_img, [sample_blk, sample_blk2]) \<and>
   get_transformed_region sample_env sample_blk sample_img 1 (font_size_or_20 sample_blk) =
     Inl (Exception (py_str ''empty crop'')) \<and>
   detect_text sample_env sample_models sample_file None =
     (Inr sample_response, sample_models, [(sample_debug_path, sample_debug_image)]) \<and>
   success sample_response \<and>
   length (textBlocks sample_response) = 2 \<and>
   length (res_text_lines (textBlocks sample_response ! 0)) = 2 \<and>
   res_text_lines (textBlocks sample_response ! 0) ! 1 = [] \<and>
   res_text (textBlocks sample_response ! 0) =
     concat (res_text_lines (textBlocks sample_response ! 0)) \<and>
   FailedToExtractLine 1 1 (py_str ''empty crop'') \<in> set (debug sample_response) \<and>
   (\<exists>resp fs.
      detect_text sample_env
        (sample_models\<lparr>manga_ocr := Some (\<lambda>pil. Inl (Exception (py_str ''decode'')))\<rparr>)
        sample_file None =
        (Inr resp,
         sample_models\<lparr>manga_ocr := Some (\<lambda>pil. Inl (Exception (py_str ''decode'')))\<rparr>, fs) \<and>
      success resp \<and> length (textBlocks resp) = 2 \<and>
      res_text_lines (textBlocks resp ! 0) ! 0 = [] \<and>
      FailedToExtractLine 0 1 (py_str ''decode'') \<in> set (debug resp))"
proof -
  let ?e = "Exception (py_str ''empty crop'')"
  let ?blks = "[sample_blk, sample_blk2]"
  have init: "initialize_models sample_env sample_models = (Inr (), sample_models)"
    by (rule initialize_models_loaded) (simp_all add: sample_models_def)
  have ct: "truthy (content_type sample_file)"
    "take 6 (case content_type sample_file of None \<Rightarrow> [] | Some ct \<Rightarrow> ct) = py_str ''image/''"
    by (simp_all add: sample_file_def py_str_def)
  have save: "save_upload sample_env (content sample_file) = Inr (py_str ''/tmp/tmpab.jpg'')"
    by (simp add: sample_env_def)
  have l: "text_detector sample_models = Some sample_detector"
    "manga_ocr sample_models = Some sample_ocr"
    "imread sample_env (py_str ''/tmp/tmpab.jpg'') = Some sample_img"
    "sample_detector sample_img 1 True = Inr (sample_img, sample_img, ?blks)"
    by (simp_all add: sample_models_def sample_env_def sample_detector_def)
  have i: "0 < length ?blks" and j: "1 < length (lines (?blks ! 0))"
    by (simp_all add: sample_blk_def)
  have gt: "get_transformed_region sample_env sample_blk sample_img 1
      (font_size_or_20 sample_blk) = Inl ?e"
    by (simp add: sample_env_def)
  then have fail: "get_transformed_region sample_env (?blks ! 0) sample_img 1
        (font_size_or_20 (?blks ! 0)) = Inl ?e \<or>
      (\<exists>pil. line_pil sample_env sample_img (?blks ! 0) 1 = Inr pil \<and> sample_ocr pil = Inl ?e)"
    by simp
  from line_failure_tolerated[OF init ct save l i j fail, of None]
  obtain resp fs where
    d: "detect_text sample_env sample_models sample_file None = (Inr resp, sample_models, fs)"
    and p: "success resp" "length (textBlocks resp) = length ?blks"
      "length (res_text_lines (textBlocks resp ! 0)) = length (lines (?blks ! 0))"
      "res_text_lines (textBlocks resp ! 0) ! 1 = []"
      "res_text (textBlocks resp ! 0) = concat (res_text_lines (textBlocks resp ! 0))"
      "FailedToExtractLine 1 (0 + 1) (str_of ?e) \<in> set (debug resp)"
    by blast
  from d sample_run have resp: "resp = sample_response" by simp
  note p' = p[unfolded resp]
  let ?m = "\<lambda>pil::picture. (Inl (Exception (py_str ''decode'')) :: exn + ustr)"
  let ?g = "sample_models\<lparr>manga_ocr := Some ?m\<rparr>"
  let ?e2 = "Exception (py_str ''decode'')"
  have init2: "initialize_models sample_env ?g = (Inr (), ?g)"
    by (rule initialize_models_loaded) (simp_all add: sample_models_def)
  have l2: "text_detector ?g = Some sample_detector" "manga_ocr ?g = Some ?m"
    by (simp_all add: sample_models_def)
  have j2: "0 < length (lines (?blks ! 0))" by (simp add: sample_blk_def)
  have lp: "line_pil sample_env sample_img sample_blk 0 =
      Inr \<lparr>rows = 80, cols = 100, channels = RGB, pixels = [12354], drawn = []\<rparr>"
    by (simp add: line_pil_def sample_env_def sample_blk_def sample_img_def cvtColor_def
        fromarray_def lib_def font_size_or_20_def swap_rb_def)
  have fail2: "get_transformed_region sample_env (?blks ! 0) sample_img 0
        (font_size_or_20 (?blks ! 0)) = Inl ?e2 \<or>
      (\<exists>pil. line_pil sample_env sample_img (?blks ! 0) 0 = Inr pil \<and> ?m pil = Inl ?e2)"
    using lp by simp
  from line_failure_tolerated[OF init2 ct save l2 l(3,4) i j2 fail2, of None]
  have second: "\<exists>resp fs.
      detect_text sample_env ?g sample_file None = (Inr resp, ?g, fs) \<and>
      success resp \<and> length (textBlocks resp) = 2 \<and>
      res_text_lines (textBlocks resp ! 0) ! 0 = [] \<and>
      FailedToExtractLine 0 1 (py_str ''decode'') \<in> set (debug resp)"
    by auto
  from p' have q: "success sample_response" "length (textBlocks sample_response) = 2"
    "length (res_text_lines (textBlocks sample_response ! 0)) = 2"
    "res_text_lines (textBlocks sample_response ! 0) ! 1 = []"
    "res_text (textBlocks sample_response ! 0) =
       concat (res_text_lines (textBlocks sample_response ! 0))"
    "FailedToExtractLine 1 1 (py_str ''empty crop'') \<in> set (debug sample_response)"
    by (simp_all add: sample_lines)
  from init ct save l(4) gt sample_run q second show ?thesis by (intro conjI)
qed

text \<open>
  C10. For every text block returned by \<open>/ocr/detect\<close>, \<open>"width"\<close> is
  \<open>bbox[2] - bbox[0]\<close>, \<open>"height"\<close> is \<open>bbox[3] - bbox[1]\<close> and \<open>"confidence"\<close>
  is exactly 1, whatever the detector returned; width and height are not negative when
  the block's line polygons hold a point, since the bounding box then comes from them.
\<close>

theorem block_geometry:
  assumes "detect_text env g upl original_path = (Inr resp, g2, fs)"
  shows "(\<forall>r \<in> set (textBlocks resp).
           res_width r = res_bbox r ! 2 - res_bbox r ! 0 \<and>
           res_height r = res_bbox r ! 3 - res_bbox r ! 1 \<and>
           res_confidence r = 1) \<and>
         (\<exists>td tmp img ma mr blks.
            text_detector g2 = Some td \<and> save_upload env (content upl) = Inr tmp \<and>
            imread env tmp = Some img \<and> td img 1 True = Inr (ma, mr, blks) \<and>
            length (textBlocks resp) = length blks \<and>
            (\<forall>i < length blks. (\<exists>line \<in> set (lines_array (blks ! i)). line \<noteq> []) \<longrightarrow>
               0 \<le> res_width (textBlocks resp ! i) \<and> 0 \<le> res_height (textBlocks resp ! i)))"
proof -
  from detect_text_blocks[OF assms] obtain td m tmp img ma mr blks where
    l: "text_detector g2 = Some td"
      "save_upload env (content upl) = Inr tmp" "imread env tmp = Some img"
      "td img 1 True = Inr (ma, mr, blks)"
    and tb: "textBlocks resp = map (block_entry env m img) blks"
    by blast
  have len: "length (textBlocks resp) = length blks" unfolding tb by simp
  have all: "res_width r = res_bbox r ! 2 - res_bbox r ! 0 \<and>
           res_height r = res_bbox r ! 3 - res_bbox r ! 1 \<and>
           res_confidence r = 1" if "r \<in> set (textBlocks resp)" for r
  proof -
    from that obtain blk where r: "r = block_entry env m img blk"
      unfolding tb set_map by blast
    show ?thesis unfolding r by (simp split: prod.splits)
  qed
  have nonneg: "0 \<le> res_width (textBlocks resp ! i) \<and> 0 \<le> res_height (textBlocks resp ! i)"
    if i: "i < length blks" and pts: "\<exists>line \<in> set (lines_array (blks ! i)). line \<noteq> []" for i
  proof -
    have ne: "concat (lines (blks ! i)) \<noteq> []"
      by (rule iffD1[OF has_points_iff pts])
    obtain x1 y1 x2 y2 where
      b: "int_box (calculate_tight_bbox_from_lines (blks ! i)) = (x1, y1, x2, y2)"
      by (cases "int_box (calculate_tight_bbox_from_lines (blks ! i))")
    from tight_bbox_ordered[OF ne b] have o: "x1 \<le> x2" "y1 \<le> y2" by simp_all
    from i have e: "textBlocks resp ! i = block_entry env m img (blks ! i)"
      unfolding tb by (simp only: nth_block_entry)
    show ?thesis unfolding e using o by (simp add: b)
  qed
  from all have A: "\<forall>r \<in> set (textBlocks resp).
           res_width r = res_bbox r ! 2 - res_bbox r ! 0 \<and>
           res_height r = res_bbox r ! 3 - res_bbox r ! 1 \<and>
           res_confidence r = 1" by blast
  from l len nonneg have B: "\<exists>td tmp img ma mr blks.
            text_detector g2 = Some td \<and> save_upload env (content upl) = Inr tmp \<and>
            imread env tmp = Some img \<and> td img 1 True = Inr (ma, mr, blks) \<and>
            length (textBlocks resp) = length blks \<and>
            (\<forall>i < length blks. (\<exists>line \<in> set (lines_array (blks ! i)). line \<noteq> []) \<longrightarrow>
               0 \<le> res_width (textBlocks resp ! i) \<and> 0 \<le> res_height (textBlocks resp ! i))"
    by blast
  from A B show ?thesis by (rule conjI)
qed

theorem block_geometry_witness:
  "detect_text sample_env sample_models sample_file None =
     (Inr sample_response, sample_models, [(sample_debug_path, sample_debug_image)]) \<and>
   textBlocks sample_response ! 0 \<in> set (textBlocks sample_response) \<and>
   res_bbox (textBlocks sample_response ! 0) = [10, 20, 35, 60] \<and>
   res_width (textBlocks sample_response ! 0) = 35 - 10 \<and>
   res_height (textBlocks sample_response ! 0) = 60 - 20 \<and>
   res_confidence (textBlocks sample_response ! 0) = 1 \<and>
   (\<exists>line \<in> set (lines_array sample_blk). line \<noteq> []) \<and>
   (\<exists>td tmp img ma mr blks.
      text_detector sample_models = Some td \<and>
      save_upload sample_env (content sample_file) = Inr tmp \<and>
      imread sample_env tmp = Some img \<and> td img 1 True = Inr (ma, mr, blks) \<and>
      length (textBlocks sample_response) = length blks \<and>
      (\<forall>i < length blks. (\<exists>line \<in> set (lines_array (blks ! i)). line \<noteq> []) \<longrightarrow>
         0 \<le> res_width (textBlocks sample_response ! i) \<and>
         0 \<le> res_height (textBlocks sample_response ! i)))"
proof -
  note t = block_geometry[OF sample_run]
  have mem: "textBlocks sample_response ! 0 \<in> set (textBlocks sample_response)"
    by (simp add: sample_response_def)
  have bb: "res_bbox (textBlocks sample_response ! 0) = [10, 20, 35, 60]"
    by (simp add: sample_response_def)
  from conjunct1[OF t] mem have
    g: "res_width (textBlocks sample_response ! 0) =
          res_bbox (textBlocks sample_response ! 0) ! 2 - res_bbox (textBlocks sample_response ! 0) ! 0 \<and>
        res_height (textBlocks sample_response ! 0) =
          res_bbox (textBlocks sample_response ! 0) ! 3 - res_bbox (textBlocks sample_response ! 0) ! 1 \<and>
        res_confidence (textBlocks sample_response ! 0) = 1"
    by (rule bspec)
  from g have g': "res_width (textBlocks sample_response ! 0) = 35 - 10"
    "res_height (textBlocks sample_response ! 0) = 60 - 20"
    "res_confidence (textBlocks sample_response ! 0) = 1"
    unfolding bb by simp_all
  have points: "\<exists>line \<in> set (lines_array sample_blk). line \<noteq> []"
    by (simp add: lines_array_def sample_blk_def)
  from sample_run mem bb g' points conjunct2[OF t] show ?thesis by (intro conjI)
qed

end
